theory Spec2Isabelle
  imports Complex_Main "HOL-Library.Sublist"
begin

section \<open>The IR of glow: types, buffer declarations, instructions, module\<close>

text \<open>
  The development embeds \<^verbatim>\<open>src/glow/IR/IRBuilder.cpp\<close> (the builder) and the
  instruction file with the \<^verbatim>\<open>verify()\<close> methods. Conventions:
  \<^item> \<^verbatim>\<open>size_t\<close> and \<^verbatim>\<open>unsigned\<close> values are natural numbers; the products that the
    source computes in \<^verbatim>\<open>size_t\<close> wrap around modulo \<open>2 ^ 64\<close> (\<open>mulSize\<close>);
  \<^item> a \<^verbatim>\<open>float\<close> attribute is a real number: a literal is the number it denotes, and a
    \<^verbatim>\<open>size_t\<close> passed for a \<^verbatim>\<open>float\<close> is rounded to a 24-bit significand (\<open>toFloat\<close>);
  \<^item> a pointer is a handle into a store owned by the module: a \<^verbatim>\<open>TypeRef\<close> is an index
    into the module's type table, a \<^verbatim>\<open>Value *\<close> an index into its buffer declarations;
    pointer equality is equality of handles;
  \<^item> a failed \<^verbatim>\<open>assert\<close>, an out-of-range index and a dangling handle abort: they are
    the \<open>Inl\<close> results of the model.
\<close>

datatype error =
    AssertionFailure string
  | IndexOutOfRange
  | InvalidPointer

definition ebind :: "error + 'a \<Rightarrow> ('a \<Rightarrow> error + 'b) \<Rightarrow> error + 'b" where
  "ebind x f = (case x of Inl e \<Rightarrow> Inl e | Inr a \<Rightarrow> f a)"

definition assert :: "bool \<Rightarrow> string \<Rightarrow> error + unit" where
  "assert b msg = (if b then Inr () else Inl (AssertionFailure msg))"

text \<open>\<^verbatim>\<open>ArrayRef::operator[]\<close>: reading past the end yields no value.\<close>

definition elemAt :: "'a list \<Rightarrow> nat \<Rightarrow> error + 'a" where
  "elemAt xs i = (if i < length xs then Inr (xs ! i) else Inl IndexOutOfRange)"

subsection \<open>Machine arithmetic\<close>

text \<open>
  The product of two \<^verbatim>\<open>size_t\<close> values, as \<^verbatim>\<open>*\<close> and \<^verbatim>\<open>*=\<close> compute it: the values of
  \<^verbatim>\<open>size_t\<close> are the naturals below \<open>2 ^ 64\<close>, and their product wraps around. A natural
  that is not a value of \<^verbatim>\<open>size_t\<close> cannot reach a product in the source; for such an
  argument the definition is the plain product.
\<close>

definition mulSize :: "nat \<Rightarrow> nat \<Rightarrow> nat" where
  "mulSize a b = (if a < 2 ^ 64 \<and> b < 2 ^ 64 then (a * b) mod 2 ^ 64 else a * b)"

text \<open>
  The conversion of a \<^verbatim>\<open>size_t\<close> to \<^verbatim>\<open>float\<close> (where a \<^verbatim>\<open>size_t\<close> is passed for a
  \<^verbatim>\<open>float\<close> parameter): the nearest number with a significand of 24 bits, a tie going
  to the even significand. \<open>bitShift n\<close> is the number of low bits of \<open>n\<close> that do not fit.
\<close>

function bitShift :: "nat \<Rightarrow> nat" where
  "bitShift n = (if n < 2 ^ 24 then 0 else Suc (bitShift (n div 2)))"
  by pat_completeness auto
termination
  by (relation "measure id") auto

declare bitShift.simps [simp del]

definition toFloat :: "nat \<Rightarrow> nat" where
  "toFloat n =
     (let e = bitShift n; q = n div 2 ^ e; r = n mod 2 ^ e
      in if 2 ^ e < 2 * r \<or> (2 * r = 2 ^ e \<and> odd q) then (q + 1) * 2 ^ e else q * 2 ^ e)"

subsection \<open>Types\<close>

text \<open>
  Modelled from the spec: the element kinds are declared in a header that is not part
  of the embedded sources; the builder names \<^verbatim>\<open>ElemKind::FloatTy\<close> and \<^verbatim>\<open>ElemKind::IndexTy\<close> (a floating-point kind and
  an index kind).
\<close>

datatype ElemKind = FloatTy | IndexTy

datatype Type = Type (getElementTypeT: ElemKind) (dimsT: "nat list")

text \<open>
  Modelled from the spec: \<^verbatim>\<open>Type::size()\<close> is declared in a header that is not part of
  the embedded sources; it is the total element count, the product of the extents.
\<close>

definition sizeT :: "Type \<Rightarrow> nat" where
  "sizeT T = prod_list (dimsT T)"

type_synonym TypeRef = nat
type_synonym ValueRef = nat

subsection \<open>Buffer declarations\<close>

datatype InitKind = kExtern | kBroadcast | kXavier
datatype ShareKind = kWeight | kActivation

text \<open>
  The display name is \<open>None\<close> until \<^verbatim>\<open>setName\<close> is called on the declaration.
\<close>

record StaticVariable =
  ty :: TypeRef
  initKind :: InitKind
  shareKind :: ShareKind
  val :: real
  name :: "string option"

subsection \<open>Instructions\<close>

datatype PoolOpKind = kMax | kAvg
datatype ArithOpKind = kAdd | kMul

text \<open>
  Modelled from the spec: the instruction classes are declared in a header that is not
  part of the embedded sources. Each instruction is its ordered operand list followed by its attributes; operand 0 is
  the output and the other operands follow in the order of the constructor's arguments
  (the order in which \<^verbatim>\<open>verify()\<close> reads them back). The access-mode tag of an operand
  is not read by any function embedded here and is left out.
\<close>

datatype Instruction =
    CopyInst "ValueRef list"
  | ConvolutionInst "ValueRef list" nat nat nat nat
  | PoolInst "ValueRef list" PoolOpKind nat nat nat
  | FullyConnectedInst "ValueRef list" nat
  | ReluInst "ValueRef list"
  | SigmoidInst "ValueRef list"
  | TanhInst "ValueRef list"
  | SoftMaxInst "ValueRef list"
  | RegressionInst "ValueRef list"
  | ReshapeInst "ValueRef list" "nat list"
  | TransposeInst "ValueRef list" "nat list"
  | ConcatInst "ValueRef list" nat
  | BatchNormalizationInst "ValueRef list" nat real real
  | ArithmeticInst "ValueRef list" ArithOpKind

fun operands :: "Instruction \<Rightarrow> ValueRef list" where
  "operands (CopyInst ops) = ops"
| "operands (ConvolutionInst ops _ _ _ _) = ops"
| "operands (PoolInst ops _ _ _ _) = ops"
| "operands (FullyConnectedInst ops _) = ops"
| "operands (ReluInst ops) = ops"
| "operands (SigmoidInst ops) = ops"
| "operands (TanhInst ops) = ops"
| "operands (SoftMaxInst ops) = ops"
| "operands (RegressionInst ops) = ops"
| "operands (ReshapeInst ops _) = ops"
| "operands (TransposeInst ops _) = ops"
| "operands (ConcatInst ops _) = ops"
| "operands (BatchNormalizationInst ops _ _ _) = ops"
| "operands (ArithmeticInst ops _) = ops"

subsection \<open>The module\<close>

record Module =
  types :: "Type list"
  vars :: "StaticVariable list"
  instrs :: "Instruction list"

definition emptyModule :: Module where
  "emptyModule = \<lparr>types = [], vars = [], instrs = []\<rparr>"

text \<open>Dereferencing a \<^verbatim>\<open>TypeRef\<close> and a \<^verbatim>\<open>Value *\<close>.\<close>

definition derefType :: "Module \<Rightarrow> TypeRef \<Rightarrow> error + Type" where
  "derefType m T = (if T < length (types m) then Inr (types m ! T) else Inl InvalidPointer)"

definition derefValue :: "Module \<Rightarrow> ValueRef \<Rightarrow> error + StaticVariable" where
  "derefValue m v = (if v < length (vars m) then Inr (vars m ! v) else Inl InvalidPointer)"

text \<open>\<^verbatim>\<open>Value::getType()\<close>, \<^verbatim>\<open>Value::dims()\<close> and \<^verbatim>\<open>Value::getElementType()\<close>.\<close>

definition getType :: "Module \<Rightarrow> ValueRef \<Rightarrow> error + TypeRef" where
  "getType m v = ebind (derefValue m v) (\<lambda>A. Inr (ty A))"

definition dims :: "Module \<Rightarrow> ValueRef \<Rightarrow> error + nat list" where
  "dims m v = ebind (getType m v) (\<lambda>T. ebind (derefType m T) (\<lambda>t. Inr (dimsT t)))"

definition getElementType :: "Module \<Rightarrow> ValueRef \<Rightarrow> error + ElemKind" where
  "getElementType m v =
     ebind (getType m v) (\<lambda>T. ebind (derefType m T) (\<lambda>t. Inr (getElementTypeT t)))"

definition getName :: "Module \<Rightarrow> ValueRef \<Rightarrow> error + string option" where
  "getName m v = ebind (derefValue m v) (\<lambda>A. Inr (name A))"

text \<open>
  Modelled from the spec: \<^verbatim>\<open>Module::uniqueType\<close> is defined in a file that is not part
  of the embedded sources. It interns an (element kind, shape) pair: a structurally equal type already in the table
  is returned, otherwise the type is added to the table and the new entry returned.
\<close>

fun findType :: "Type list \<Rightarrow> Type \<Rightarrow> TypeRef option" where
  "findType [] t = None"
| "findType (x # xs) t = (if x = t then Some 0 else map_option Suc (findType xs t))"

definition uniqueType :: "Module \<Rightarrow> ElemKind \<Rightarrow> nat list \<Rightarrow> TypeRef \<times> Module" where
  "uniqueType m elemTy ds =
     (case findType (types m) (Type elemTy ds) of
        Some T \<Rightarrow> (T, m)
      | None \<Rightarrow> (length (types m), m\<lparr>types := types m @ [Type elemTy ds]\<rparr>))"

text \<open>
  \<^verbatim>\<open>new StaticVariable(T, initKind, shareKind, val)\<close> followed by \<^verbatim>\<open>M_.pushVar(A)\<close>: the
  declaration is stored in the module and its handle returned. \<^verbatim>\<open>setName\<close> writes
  through the handle.
\<close>

definition newStaticVariable :: "TypeRef \<Rightarrow> InitKind \<Rightarrow> ShareKind \<Rightarrow> real \<Rightarrow> StaticVariable" where
  "newStaticVariable T ik sk v =
     \<lparr>ty = T, initKind = ik, shareKind = sk, val = v, name = None\<rparr>"

definition pushVar :: "Module \<Rightarrow> StaticVariable \<Rightarrow> ValueRef \<times> Module" where
  "pushVar m A = (length (vars m), m\<lparr>vars := vars m @ [A]\<rparr>)"

definition setName :: "Module \<Rightarrow> ValueRef \<Rightarrow> string \<Rightarrow> Module" where
  "setName m A nm = m\<lparr>vars := (vars m)[A := (vars m ! A)\<lparr>name := Some nm\<rparr>]\<rparr>"

definition pushInstr :: "Module \<Rightarrow> Instruction \<Rightarrow> Instruction \<times> Module" where
  "pushInstr m I = (I, m\<lparr>instrs := instrs m @ [I]\<rparr>)"

section \<open>The builder: buffer declarations\<close>

text \<open>\<^verbatim>\<open>IRBuilder::createStaticVariable(ElemKind, ArrayRef<size_t>, name, ...)\<close>.\<close>

definition createStaticVariable ::
  "Module \<Rightarrow> ElemKind \<Rightarrow> nat list \<Rightarrow> string \<Rightarrow> InitKind \<Rightarrow> ShareKind \<Rightarrow> real
     \<Rightarrow> ValueRef \<times> Module" where
  "createStaticVariable m elemTy ds nm ik sk v =
     (let (T, m1) = uniqueType m elemTy ds;
          (A, m2) = pushVar m1 (newStaticVariable T ik sk v);
          m3 = setName m2 A nm
      in (A, m3))"

text \<open>
  \<^verbatim>\<open>IRBuilder::createStaticVariable(TypeRef, name, ...)\<close>: the \<^verbatim>\<open>name\<close> parameter is not
  used by the body.
\<close>

definition createStaticVariableT ::
  "Module \<Rightarrow> TypeRef \<Rightarrow> string \<Rightarrow> InitKind \<Rightarrow> ShareKind \<Rightarrow> real \<Rightarrow> ValueRef \<times> Module" where
  "createStaticVariableT m T nm ik sk v =
     (let (A, m1) = pushVar m (newStaticVariable T ik sk v)
      in (A, m1))"

text \<open>
  Modelled from the spec: the default arguments of both overloads are declared in the
  builder's header, which is not part of the embedded sources. A declaration created without them is an
  \<open>Extern\<close>-initialised \<open>Activation\<close> buffer with the empty name.
\<close>

definition createStaticVariable_default :: "Module \<Rightarrow> ElemKind \<Rightarrow> nat list \<Rightarrow> ValueRef \<times> Module" where
  "createStaticVariable_default m elemTy ds =
     createStaticVariable m elemTy ds [] kExtern kActivation 0"

definition createStaticVariable_named ::
  "Module \<Rightarrow> ElemKind \<Rightarrow> nat list \<Rightarrow> string \<Rightarrow> ValueRef \<times> Module" where
  "createStaticVariable_named m elemTy ds nm =
     createStaticVariable m elemTy ds nm kExtern kActivation 0"

definition createStaticVariableT_default :: "Module \<Rightarrow> TypeRef \<Rightarrow> ValueRef \<times> Module" where
  "createStaticVariableT_default m T = createStaticVariableT m T [] kExtern kActivation 0"

definition createStaticVariableT_named :: "Module \<Rightarrow> TypeRef \<Rightarrow> string \<Rightarrow> ValueRef \<times> Module" where
  "createStaticVariableT_named m T nm = createStaticVariableT m T nm kExtern kActivation 0"

section \<open>Shape helpers\<close>

text \<open>
  Modelled from the spec: \<^verbatim>\<open>struct ShapeNHWC\<close> is declared in a header that is not part
  of the embedded sources. It is a shape (N, H, W, C), built from a list of exactly four
  extents; a list of another length is an abort.
\<close>

record ShapeNHWC =
  dim_n :: nat
  dim_h :: nat
  dim_w :: nat
  dim_c :: nat

fun toShapeNHWC :: "nat list \<Rightarrow> error + ShapeNHWC" where
  "toShapeNHWC [n, h, w, c] = Inr \<lparr>dim_n = n, dim_h = h, dim_w = w, dim_c = c\<rparr>"
| "toShapeNHWC _ = Inl (AssertionFailure ''Invalid shape'')"

text \<open>
  Modelled from the spec: \<^verbatim>\<open>ConvNode::calculateOutputDims\<close> is defined in a file that is
  not part of the embedded sources. The output extent per axis is
  \<open>\<lfloor>(extent + 2 pad - kernel) / stride\<rfloor> + 1\<close>; the arguments are in the order of the call
  sites (height, width, pad, kernel, stride). The spec gives the formula only; for a zero
  stride, where it has no quotient, the definition below has the value of \<open>div\<close> in HOL
  (zero), so nothing proved here about the extents says what the source does then.
\<close>

definition calculateOutputDims :: "nat \<Rightarrow> nat \<Rightarrow> nat \<Rightarrow> nat \<Rightarrow> nat \<Rightarrow> nat \<times> nat" where
  "calculateOutputDims sx sy pad filterSize stride =
     ((sx + 2 * pad - filterSize) div stride + 1, (sy + 2 * pad - filterSize) div stride + 1)"

text \<open>
  Modelled from the spec: \<^verbatim>\<open>flattenCdr\<close> is defined in a header that is not part of the
  embedded sources. It keeps the leading (batch) extent and collapses all the others
  into one feature extent; the empty shape has no leading extent and is an abort.
\<close>

fun flattenCdr :: "nat list \<Rightarrow> error + nat \<times> nat" where
  "flattenCdr [] = Inl IndexOutOfRange"
| "flattenCdr (d # rest) = Inr (d, prod_list rest)"

section \<open>The builder: low-level instructions\<close>

definition createCopyInst :: "Module \<Rightarrow> ValueRef \<Rightarrow> ValueRef \<Rightarrow> Instruction \<times> Module" where
  "createCopyInst m dest src = pushInstr m (CopyInst [dest, src])"

definition createConvolutionInst ::
  "Module \<Rightarrow> ValueRef \<Rightarrow> ValueRef \<Rightarrow> ValueRef \<Rightarrow> ValueRef \<Rightarrow> nat \<Rightarrow> nat \<Rightarrow> nat \<Rightarrow> nat
     \<Rightarrow> Instruction \<times> Module" where
  "createConvolutionInst m dest src filter' bias kernel' stride pad depth =
     pushInstr m (ConvolutionInst [dest, src, filter', bias] kernel' stride pad depth)"

definition createPoolInst ::
  "Module \<Rightarrow> ValueRef \<Rightarrow> ValueRef \<Rightarrow> ValueRef \<Rightarrow> PoolOpKind \<Rightarrow> nat \<Rightarrow> nat \<Rightarrow> nat
     \<Rightarrow> Instruction \<times> Module" where
  "createPoolInst m dest src srcXY k kernel' stride pad =
     pushInstr m (PoolInst [dest, src, srcXY] k kernel' stride pad)"

definition createFullyConnectedInst ::
  "Module \<Rightarrow> ValueRef \<Rightarrow> ValueRef \<Rightarrow> ValueRef \<Rightarrow> ValueRef \<Rightarrow> nat \<Rightarrow> Instruction \<times> Module" where
  "createFullyConnectedInst m dest src filter' bias depth =
     pushInstr m (FullyConnectedInst [dest, src, filter', bias] depth)"

definition createReluInst :: "Module \<Rightarrow> ValueRef \<Rightarrow> ValueRef \<Rightarrow> Instruction \<times> Module" where
  "createReluInst m dest src = pushInstr m (ReluInst [dest, src])"

definition createSigmoidInst :: "Module \<Rightarrow> ValueRef \<Rightarrow> ValueRef \<Rightarrow> Instruction \<times> Module" where
  "createSigmoidInst m dest src = pushInstr m (SigmoidInst [dest, src])"

definition createTanhInst :: "Module \<Rightarrow> ValueRef \<Rightarrow> ValueRef \<Rightarrow> Instruction \<times> Module" where
  "createTanhInst m dest src = pushInstr m (TanhInst [dest, src])"

definition createSoftMaxInst ::
  "Module \<Rightarrow> ValueRef \<Rightarrow> ValueRef \<Rightarrow> ValueRef \<Rightarrow> ValueRef \<Rightarrow> Instruction \<times> Module" where
  "createSoftMaxInst m dest src E selected = pushInstr m (SoftMaxInst [dest, src, E, selected])"

definition createRegressionInst ::
  "Module \<Rightarrow> ValueRef \<Rightarrow> ValueRef \<Rightarrow> ValueRef \<Rightarrow> Instruction \<times> Module" where
  "createRegressionInst m dest src expected = pushInstr m (RegressionInst [dest, src, expected])"

definition createReshapeInst ::
  "Module \<Rightarrow> ValueRef \<Rightarrow> ValueRef \<Rightarrow> nat list \<Rightarrow> Instruction \<times> Module" where
  "createReshapeInst m dest src shape = pushInstr m (ReshapeInst [dest, src] shape)"

definition createTransposeInst ::
  "Module \<Rightarrow> ValueRef \<Rightarrow> ValueRef \<Rightarrow> nat list \<Rightarrow> Instruction \<times> Module" where
  "createTransposeInst m dest src shuffle = pushInstr m (TransposeInst [dest, src] shuffle)"

text \<open>The constructor pushes \<^verbatim>\<open>dest\<close> and then every element of \<^verbatim>\<open>src\<close>.\<close>

definition createConcatInst ::
  "Module \<Rightarrow> ValueRef \<Rightarrow> ValueRef list \<Rightarrow> nat \<Rightarrow> Instruction \<times> Module" where
  "createConcatInst m dest src d = pushInstr m (ConcatInst (dest # src) d)"

definition createBatchNormalizationInst ::
  "Module \<Rightarrow> ValueRef \<Rightarrow> ValueRef \<Rightarrow> ValueRef \<Rightarrow> ValueRef \<Rightarrow> ValueRef \<Rightarrow> ValueRef
     \<Rightarrow> nat \<Rightarrow> real \<Rightarrow> real \<Rightarrow> Instruction \<times> Module" where
  "createBatchNormalizationInst m dest src scale bias mean var channelIdx epsilon momentum =
     pushInstr m (BatchNormalizationInst [dest, src, scale, bias, mean, var]
                    channelIdx epsilon momentum)"

definition createArithmeticInst ::
  "Module \<Rightarrow> ValueRef \<Rightarrow> ValueRef \<Rightarrow> ValueRef \<Rightarrow> ArithOpKind \<Rightarrow> Instruction \<times> Module" where
  "createArithmeticInst m dest LHS RHS k = pushInstr m (ArithmeticInst [dest, LHS, RHS] k)"

section \<open>The builder: high-level operators\<close>

definition createConvOp ::
  "Module \<Rightarrow> ValueRef \<Rightarrow> nat \<Rightarrow> nat \<Rightarrow> nat \<Rightarrow> nat \<Rightarrow> error + Instruction \<times> Module" where
  "createConvOp m input depth kernel' stride pad =
     ebind (dims m input) (\<lambda>ds.
     ebind (toShapeNHWC ds) (\<lambda>idim.
     ebind (assert (dim_w idim \<ge> kernel' \<and> dim_h idim \<ge> kernel')
              ''buffer too small for selected stride'') (\<lambda>_.
       let outSz = calculateOutputDims (dim_h idim) (dim_w idim) pad kernel' stride;
           outDims = [dim_n idim, fst outSz, snd outSz, depth];
           filterDim = [depth, kernel', kernel', dim_c idim];
           fanIn = mulSize (mulSize kernel' kernel') (dim_c idim);
           (filter', m1) =
              createStaticVariable m FloatTy filterDim ''filter'' kXavier kWeight
                (real (toFloat fanIn));
           (bias, m2) =
              createStaticVariable m1 FloatTy [depth] ''bias'' kBroadcast kWeight 0.1;
           (dest, m3) = createStaticVariable_default m2 FloatTy outDims
       in Inr (createConvolutionInst m3 dest input filter' bias kernel' stride pad depth))))"

definition createPoolOp ::
  "Module \<Rightarrow> ValueRef \<Rightarrow> PoolOpKind \<Rightarrow> nat \<Rightarrow> nat \<Rightarrow> nat \<Rightarrow> error + Instruction \<times> Module" where
  "createPoolOp m input k kernel' stride pad =
     ebind (dims m input) (\<lambda>ds.
     ebind (toShapeNHWC ds) (\<lambda>idim.
     ebind (assert (dim_w idim \<ge> kernel' \<and> dim_h idim \<ge> kernel')
              ''buffer too small for selected stride'') (\<lambda>_.
       let outSz = calculateOutputDims (dim_h idim) (dim_w idim) pad kernel' stride;
           (srcXY, m1) =
              (if k = kMax
               then createStaticVariable_named m IndexTy
                      [dim_n idim, fst outSz, snd outSz, dim_c idim, 2] ''srcXY''
               else createStaticVariable_named m IndexTy [] ''srcXY'');
           (dest, m2) =
              createStaticVariable_default m1 FloatTy
                [dim_n idim, fst outSz, snd outSz, dim_c idim]
       in Inr (createPoolInst m2 dest input srcXY k kernel' stride pad))))"

definition createFullyConnectedOp ::
  "Module \<Rightarrow> ValueRef \<Rightarrow> nat \<Rightarrow> error + Instruction \<times> Module" where
  "createFullyConnectedOp m input outDepth =
     ebind (getType m input) (\<lambda>T.
     ebind (dims m input) (\<lambda>ds.
     ebind (flattenCdr ds) (\<lambda>idim.
     ebind (derefType m T) (\<lambda>t.
       let fanIn = snd idim;
           (W, m1) =
              createStaticVariable m (getElementTypeT t) [outDepth, snd idim] ''weights''
                kXavier kWeight (real (toFloat fanIn));
           (B, m2) =
              createStaticVariable m1 (getElementTypeT t) [outDepth] ''bias''
                kBroadcast kWeight 0.1;
           (dest, m3) =
              createStaticVariable_default m2 (getElementTypeT t) [fst idim, outDepth]
       in Inr (createFullyConnectedInst m3 dest input W B outDepth)))))"

definition createRELUOp :: "Module \<Rightarrow> ValueRef \<Rightarrow> error + Instruction \<times> Module" where
  "createRELUOp m input =
     ebind (getType m input) (\<lambda>T.
       let (res, m1) = createStaticVariableT_default m T
       in Inr (createReluInst m1 res input))"

definition createSigmoidOp :: "Module \<Rightarrow> ValueRef \<Rightarrow> error + Instruction \<times> Module" where
  "createSigmoidOp m input =
     ebind (getType m input) (\<lambda>T.
       let (res, m1) = createStaticVariableT_default m T
       in Inr (createSigmoidInst m1 res input))"

definition createTanhOp :: "Module \<Rightarrow> ValueRef \<Rightarrow> error + Instruction \<times> Module" where
  "createTanhOp m input =
     ebind (getType m input) (\<lambda>T.
       let (res, m1) = createStaticVariableT_default m T
       in Inr (createTanhInst m1 res input))"

definition createSoftMaxOp ::
  "Module \<Rightarrow> ValueRef \<Rightarrow> ValueRef \<Rightarrow> error + Instruction \<times> Module" where
  "createSoftMaxOp m input selected =
     ebind (getType m input) (\<lambda>T.
       let (res, m1) = createStaticVariableT_default m T
       in ebind (getType m1 input) (\<lambda>T'.
            let (E, m2) = createStaticVariableT_named m1 T' ''expected''
            in Inr (createSoftMaxInst m2 res input E selected)))"

definition createRegressionOp ::
  "Module \<Rightarrow> ValueRef \<Rightarrow> ValueRef \<Rightarrow> error + Instruction \<times> Module" where
  "createRegressionOp m input expected =
     ebind (getType m input) (\<lambda>T.
       let (res, m1) = createStaticVariableT_default m T
       in Inr (createRegressionInst m1 res input expected))"

definition createReshapeOp ::
  "Module \<Rightarrow> ValueRef \<Rightarrow> nat list \<Rightarrow> error + Instruction \<times> Module" where
  "createReshapeOp m input shape =
     ebind (getElementType m input) (\<lambda>ek.
       let (res, m1) = createStaticVariable_default m ek shape
       in Inr (createReshapeInst m1 res input shape))"

text \<open>
  The loop of \<^verbatim>\<open>createTransposeOp\<close> and of \<^verbatim>\<open>TransposeInst::verify\<close>: for \<open>i\<close> from
  \<open>0\<close> below the rank, push \<^verbatim>\<open>dims[shuffle[i]]\<close>. The first argument lists the indices
  still to visit.
\<close>

fun shuffleDims :: "nat list \<Rightarrow> nat list \<Rightarrow> nat list \<Rightarrow> error + nat list" where
  "shuffleDims [] ds shuffle = Inr []"
| "shuffleDims (i # is) ds shuffle =
     ebind (elemAt shuffle i) (\<lambda>j.
     ebind (elemAt ds j) (\<lambda>d.
     ebind (shuffleDims is ds shuffle) (\<lambda>shape. Inr (d # shape))))"

definition createTransposeOp ::
  "Module \<Rightarrow> ValueRef \<Rightarrow> nat list \<Rightarrow> error + Instruction \<times> Module" where
  "createTransposeOp m input shuffle =
     ebind (dims m input) (\<lambda>ds.
     ebind (shuffleDims [0..<length ds] ds shuffle) (\<lambda>shape.
     ebind (getElementType m input) (\<lambda>ek.
       let (res, m1) = createStaticVariable_default m ek shape
       in Inr (createTransposeInst m1 res input shuffle))))"

text \<open>
  The loops of \<^verbatim>\<open>createConcatOp\<close> and \<^verbatim>\<open>ConcatInst::verify\<close> that compare the shape of
  each input with \<^verbatim>\<open>inDim\<close>, and the statement \<^verbatim>\<open>shape[dimension] *= count\<close> on a
  \<^verbatim>\<open>std::vector\<close> (an index past the end has no defined result: it is an abort here).
\<close>

fun checkInputShapes :: "Module \<Rightarrow> ValueRef list \<Rightarrow> nat list \<Rightarrow> error + unit" where
  "checkInputShapes m [] inDim = Inr ()"
| "checkInputShapes m (v # vs) inDim =
     ebind (dims m v) (\<lambda>ds.
     ebind (assert (ds = inDim) ''Invalid input shape'') (\<lambda>_.
     checkInputShapes m vs inDim))"

definition stackAlong :: "nat list \<Rightarrow> nat \<Rightarrow> nat \<Rightarrow> error + nat list" where
  "stackAlong shape dimension count =
     (if dimension < length shape
      then Inr (shape[dimension := mulSize (shape ! dimension) count])
      else Inl IndexOutOfRange)"

definition createConcatOp ::
  "Module \<Rightarrow> ValueRef list \<Rightarrow> nat \<Rightarrow> error + Instruction \<times> Module" where
  "createConcatOp m inputs dimension =
     ebind (elemAt inputs 0) (\<lambda>in0.
     ebind (dims m in0) (\<lambda>inDim.
     ebind (checkInputShapes m inputs inDim) (\<lambda>_.
     ebind (stackAlong inDim dimension (length inputs)) (\<lambda>shape.
     ebind (getElementType m in0) (\<lambda>ek.
       let (res, m1) = createStaticVariable_default m ek shape
       in Inr (createConcatInst m1 res inputs dimension))))))"

definition createBatchNormalizationOp ::
  "Module \<Rightarrow> ValueRef \<Rightarrow> nat \<Rightarrow> real \<Rightarrow> real \<Rightarrow> error + Instruction \<times> Module" where
  "createBatchNormalizationOp m input channelIdx epsilon momentum =
     ebind (dims m input) (\<lambda>ds.
     ebind (elemAt ds channelIdx) (\<lambda>channels.
       let (beta, m1) =
              createStaticVariable m FloatTy [channels] ''beta'' kBroadcast kWeight 0;
           (gamma, m2) =
              createStaticVariable m1 FloatTy [channels] ''gamma'' kBroadcast kWeight 1;
           (mean, m3) = createStaticVariable_named m2 FloatTy [channels] ''mean'';
           (variance, m4) = createStaticVariable_named m3 FloatTy [channels] ''variance''
       in ebind (getType m4 input) (\<lambda>T.
            let (dest, m5) = createStaticVariableT_default m4 T
            in Inr (createBatchNormalizationInst m5 dest input gamma beta mean variance
                      channelIdx epsilon momentum))))"

definition createArithmeticOp ::
  "Module \<Rightarrow> ValueRef \<Rightarrow> ValueRef \<Rightarrow> ArithOpKind \<Rightarrow> error + Instruction \<times> Module" where
  "createArithmeticOp m LHS RHS k =
     ebind (dims m LHS) (\<lambda>dl.
     ebind (dims m RHS) (\<lambda>dr.
     ebind (assert (dl = dr) ''Invalid operand shapes'') (\<lambda>_.
     ebind (getType m LHS) (\<lambda>T.
       let (res, m1) = createStaticVariableT_default m T
       in Inr (createArithmeticInst m1 res LHS RHS k)))))"

section \<open>Verification of instructions\<close>

definition getOperand :: "Instruction \<Rightarrow> nat \<Rightarrow> error + ValueRef" where
  "getOperand I i = elemAt (operands I) i"

definition getNumOperands :: "Instruction \<Rightarrow> nat" where
  "getNumOperands I = length (operands I)"

text \<open>The type of the first operand is the type of the second: equality of \<^verbatim>\<open>TypeRef\<close>s.\<close>

definition checkSameType :: "Module \<Rightarrow> ValueRef \<Rightarrow> ValueRef \<Rightarrow> error + unit" where
  "checkSameType m A B =
     ebind (getType m A) (\<lambda>TA.
     ebind (getType m B) (\<lambda>TB.
     assert (TA = TB) ''Invalid type''))"

definition verifySameType01 :: "Module \<Rightarrow> Instruction \<Rightarrow> error + unit" where
  "verifySameType01 m I =
     ebind (getOperand I 0) (\<lambda>A.
     ebind (getOperand I 1) (\<lambda>B.
     checkSameType m A B))"

definition ConvolutionInst_verify ::
  "Module \<Rightarrow> Instruction \<Rightarrow> nat \<Rightarrow> nat \<Rightarrow> nat \<Rightarrow> nat \<Rightarrow> error + unit" where
  "ConvolutionInst_verify m I kernel' stride pad depth =
     ebind (getOperand I 0) (\<lambda>dest.
     ebind (getOperand I 1) (\<lambda>src.
     ebind (getOperand I 2) (\<lambda>filter'.
     ebind (getOperand I 3) (\<lambda>bias.
     ebind (dims m src) (\<lambda>sds.
     ebind (toShapeNHWC sds) (\<lambda>idim.
     ebind (dims m dest) (\<lambda>dds.
     ebind (toShapeNHWC dds) (\<lambda>odim.
     ebind (assert (dim_w idim \<ge> kernel' \<and> dim_h idim \<ge> kernel')
              ''buffer too small for selected stride'') (\<lambda>_.
       let outSz = calculateOutputDims (dim_h idim) (dim_w idim) pad kernel' stride
       in
     ebind (toShapeNHWC [dim_n idim, fst outSz, snd outSz, depth]) (\<lambda>exp'.
     ebind (assert (exp' = odim) ''Invalid output dimensions'') (\<lambda>_.
     ebind (dims m filter') (\<lambda>fds.
     ebind (assert (fds = [depth, kernel', kernel', dim_c idim]) ''Invalid filter dims'') (\<lambda>_.
     ebind (dims m bias) (\<lambda>bds.
     assert (bds = [depth]) ''Invalid bias dims''))))))))))))))"

definition PoolInst_verify ::
  "Module \<Rightarrow> Instruction \<Rightarrow> PoolOpKind \<Rightarrow> nat \<Rightarrow> nat \<Rightarrow> nat \<Rightarrow> error + unit" where
  "PoolInst_verify m I k kernel' stride pad =
     ebind (getOperand I 0) (\<lambda>dest.
     ebind (getOperand I 1) (\<lambda>src.
     ebind (getOperand I 2) (\<lambda>srcXY.
     ebind (dims m src) (\<lambda>sds.
     ebind (toShapeNHWC sds) (\<lambda>idim.
     ebind (dims m dest) (\<lambda>dds.
     ebind (toShapeNHWC dds) (\<lambda>odim.
     ebind (assert (dim_w idim \<ge> kernel' \<and> dim_h idim \<ge> kernel')
              ''buffer too small for selected stride'') (\<lambda>_.
       let outSz = calculateOutputDims (dim_h idim) (dim_w idim) pad kernel' stride
       in
     ebind (toShapeNHWC [dim_n idim, fst outSz, snd outSz, dim_c idim]) (\<lambda>exp'.
     ebind (assert (exp' = odim) ''Invalid output dimensions'') (\<lambda>_.
       if k = kMax
       then ebind (dims m srcXY) (\<lambda>xds.
              assert (xds = [dim_n idim, fst outSz, snd outSz, dim_c idim, 2])
                ''Invalid srcXY dims'')
       else Inr ()))))))))))"

definition FullyConnectedInst_verify :: "Module \<Rightarrow> Instruction \<Rightarrow> nat \<Rightarrow> error + unit" where
  "FullyConnectedInst_verify m I depth =
     ebind (getOperand I 0) (\<lambda>dest.
     ebind (getOperand I 1) (\<lambda>src.
     ebind (getOperand I 2) (\<lambda>W.
     ebind (getOperand I 3) (\<lambda>B.
     ebind (dims m src) (\<lambda>sds.
     ebind (flattenCdr sds) (\<lambda>idim.
     ebind (dims m dest) (\<lambda>dds.
     ebind (assert (dds = [fst idim, depth]) ''Invalid output shape'') (\<lambda>_.
     ebind (dims m W) (\<lambda>wds.
     ebind (assert (wds = [depth, snd idim]) ''Invalid output shape'') (\<lambda>_.
     ebind (dims m B) (\<lambda>bds.
     assert (bds = [depth]) ''Invalid output shape'')))))))))))"

definition ReshapeInst_verify :: "Module \<Rightarrow> Instruction \<Rightarrow> error + unit" where
  "ReshapeInst_verify m I =
     ebind (getOperand I 0) (\<lambda>dest.
     ebind (getType m dest) (\<lambda>TD.
     ebind (derefType m TD) (\<lambda>td.
     ebind (getOperand I 1) (\<lambda>src.
     ebind (getType m src) (\<lambda>TS.
     ebind (derefType m TS) (\<lambda>ts.
     assert (sizeT td = sizeT ts) ''Reshape into a different size''))))))"

definition TransposeInst_verify :: "Module \<Rightarrow> Instruction \<Rightarrow> nat list \<Rightarrow> error + unit" where
  "TransposeInst_verify m I shuffle =
     ebind (getOperand I 0) (\<lambda>dest.
     ebind (getOperand I 1) (\<lambda>src.
     ebind (dims m src) (\<lambda>ds.
     ebind (shuffleDims [0..<length ds] ds shuffle) (\<lambda>shape.
     ebind (dims m dest) (\<lambda>dds.
     assert (dds = shape) ''Invalid transpose dims'')))))"

definition ConcatInst_verify :: "Module \<Rightarrow> Instruction \<Rightarrow> nat \<Rightarrow> error + unit" where
  "ConcatInst_verify m I d =
     ebind (assert (getNumOperands I > 1) ''Invalid number of operands'') (\<lambda>_.
     ebind (getOperand I 1) (\<lambda>in0.
     ebind (dims m in0) (\<lambda>inDim.
     ebind (checkInputShapes m (drop 2 (operands I)) inDim) (\<lambda>_.
     ebind (stackAlong inDim d (getNumOperands I - 1)) (\<lambda>shape.
     ebind (getOperand I 0) (\<lambda>dest.
     ebind (dims m dest) (\<lambda>dds.
     assert (dds = shape) ''Invalid output shape'')))))))"

definition BatchNormalizationInst_verify :: "Module \<Rightarrow> Instruction \<Rightarrow> nat \<Rightarrow> error + unit" where
  "BatchNormalizationInst_verify m I channelIdx =
     ebind (verifySameType01 m I) (\<lambda>_.
     ebind (getOperand I 0) (\<lambda>dest.
     ebind (dims m dest) (\<lambda>dds.
     ebind (elemAt dds channelIdx) (\<lambda>channels.
     ebind (getOperand I 2) (\<lambda>v2.
     ebind (dims m v2) (\<lambda>d2.
     ebind (assert (d2 = [channels]) ''Invalid bias dim'') (\<lambda>_.
     ebind (getOperand I 3) (\<lambda>v3.
     ebind (dims m v3) (\<lambda>d3.
     ebind (assert (d3 = [channels]) ''Invalid scale dim'') (\<lambda>_.
     ebind (getOperand I 4) (\<lambda>v4.
     ebind (dims m v4) (\<lambda>d4.
     ebind (assert (d4 = [channels]) ''Invalid mean dim'') (\<lambda>_.
     ebind (getOperand I 5) (\<lambda>v5.
     ebind (dims m v5) (\<lambda>d5.
     assert (d5 = [channels]) ''Invalid var dim'')))))))))))))))"

definition ArithmeticInst_verify :: "Module \<Rightarrow> Instruction \<Rightarrow> error + unit" where
  "ArithmeticInst_verify m I =
     ebind (verifySameType01 m I) (\<lambda>_.
     ebind (getOperand I 0) (\<lambda>A.
     ebind (getOperand I 2) (\<lambda>B.
     checkSameType m A B)))"

text \<open>The virtual \<^verbatim>\<open>verify()\<close>: dispatch on the class of the instruction.\<close>

fun verify :: "Module \<Rightarrow> Instruction \<Rightarrow> error + unit" where
  "verify m (CopyInst ops) = verifySameType01 m (CopyInst ops)"
| "verify m (ConvolutionInst ops kernel' stride pad depth) =
     ConvolutionInst_verify m (ConvolutionInst ops kernel' stride pad depth)
       kernel' stride pad depth"
| "verify m (PoolInst ops k kernel' stride pad) =
     PoolInst_verify m (PoolInst ops k kernel' stride pad) k kernel' stride pad"
| "verify m (FullyConnectedInst ops depth) =
     FullyConnectedInst_verify m (FullyConnectedInst ops depth) depth"
| "verify m (ReluInst ops) = verifySameType01 m (ReluInst ops)"
| "verify m (SigmoidInst ops) = verifySameType01 m (SigmoidInst ops)"
| "verify m (TanhInst ops) = verifySameType01 m (TanhInst ops)"
| "verify m (SoftMaxInst ops) = verifySameType01 m (SoftMaxInst ops)"
| "verify m (RegressionInst ops) = verifySameType01 m (RegressionInst ops)"
| "verify m (ReshapeInst ops ds) = ReshapeInst_verify m (ReshapeInst ops ds)"
| "verify m (TransposeInst ops shuffle) =
     TransposeInst_verify m (TransposeInst ops shuffle) shuffle"
| "verify m (ConcatInst ops d) = ConcatInst_verify m (ConcatInst ops d) d"
| "verify m (BatchNormalizationInst ops channelIdx epsilon momentum) =
     BatchNormalizationInst_verify m
       (BatchNormalizationInst ops channelIdx epsilon momentum) channelIdx"
| "verify m (ArithmeticInst ops k) = ArithmeticInst_verify m (ArithmeticInst ops k)"

section \<open>Later states of a module and example modules\<close>

text \<open>
  The builder only ever appends to the type table and to the buffer declarations:
  \<open>extends m m'\<close> says that \<open>m'\<close> is \<open>m\<close> with more types and declarations.
\<close>

definition extends :: "Module \<Rightarrow> Module \<Rightarrow> bool" where
  "extends m m' = (prefix (types m) (types m') \<and> prefix (vars m) (vars m'))"

text \<open>Modules with one declared input buffer (handle \<open>0\<close>), used as concrete inputs.\<close>

definition convInputModule :: Module where
  "convInputModule = snd (createStaticVariable_default emptyModule FloatTy [1, 32, 32, 3])"

definition poolInputModule :: Module where
  "poolInputModule = snd (createStaticVariable_default emptyModule FloatTy [1, 16, 16, 8])"

text \<open>A module with a float buffer (handle \<open>0\<close>) and an index buffer (handle \<open>1\<close>).\<close>

definition softMaxInputModule :: Module where
  "softMaxInputModule =
     snd (createStaticVariable_default
            (snd (createStaticVariable_default emptyModule FloatTy [8, 10])) IndexTy [8, 1])"

text \<open>
  A module with seven declared buffers: handles \<open>0\<close>, \<open>1\<close>, \<open>2\<close> are float buffers of
  shape \<open>(2, 4, 4, 6)\<close>, handle \<open>3\<close> is an index buffer of the same shape, handles \<open>4\<close>,
  \<open>5\<close>, \<open>6\<close> are float buffers of shapes \<open>(2, 3)\<close>, \<open>(3, 2)\<close> and \<open>(5)\<close>.
\<close>

definition exampleModule :: Module where
  "exampleModule =
     (let m1 = snd (createStaticVariable_default emptyModule FloatTy [2, 4, 4, 6]);
          m2 = snd (createStaticVariable_default m1 FloatTy [2, 4, 4, 6]);
          m3 = snd (createStaticVariable_default m2 FloatTy [2, 4, 4, 6]);
          m4 = snd (createStaticVariable_default m3 IndexTy [2, 4, 4, 6]);
          m5 = snd (createStaticVariable_default m4 FloatTy [2, 3]);
          m6 = snd (createStaticVariable_default m5 FloatTy [3, 2])
      in snd (createStaticVariable_default m6 FloatTy [5]))"

text \<open>Three declarations in a row: shapes \<open>(2, 3)\<close>, \<open>(3, 2)\<close> and \<open>(2, 3)\<close> again.\<close>

definition internModule1 :: Module where
  "internModule1 = snd (createStaticVariable_default emptyModule FloatTy [2, 3])"

definition internModule2 :: Module where
  "internModule2 = snd (createStaticVariable_default internModule1 FloatTy [3, 2])"

definition internModule3 :: Module where
  "internModule3 = snd (createStaticVariable_default internModule2 FloatTy [2, 3])"

text \<open>
  Modules for the limits of the machine arithmetic: an input of shape \<open>(1, 4097, 4097, 1)\<close>
  (\<open>4097 * 4097\<close> needs 25 bits), an input of shape \<open>(1, 2 ^ 32, 2 ^ 32, 1)\<close>, and two buffers
  of shape \<open>(2 ^ 63)\<close>.
\<close>

definition roundingInputModule :: Module where
  "roundingInputModule =
     snd (createStaticVariable_default emptyModule FloatTy [1, 4097, 4097, 1])"

definition wrapInputModule :: Module where
  "wrapInputModule =
     snd (createStaticVariable_default emptyModule FloatTy [1, 4294967296, 4294967296, 1])"

definition overflowModule :: Module where
  "overflowModule =
     snd (createStaticVariable_default
            (snd (createStaticVariable_default emptyModule FloatTy [9223372036854775808]))
            FloatTy [9223372036854775808])"

section \<open>Permutations of the axes\<close>

text \<open>
  A permutation of the axes \<open>0, \<dots>, r - 1\<close> is a list of length \<open>r\<close> whose elements are
  exactly these axes; \<open>inversePermutation p\<close> sends every axis to its position in \<open>p\<close>.
  Both are notions of the specification, not functions of the source.
\<close>

definition isPermutation :: "nat list \<Rightarrow> nat \<Rightarrow> bool" where
  "isPermutation p r = (length p = r \<and> set p = {0..<r})"

fun indexOf :: "nat list \<Rightarrow> nat \<Rightarrow> nat" where
  "indexOf [] x = 0"
| "indexOf (y # ys) x = (if y = x then 0 else Suc (indexOf ys x))"

definition inversePermutation :: "nat list \<Rightarrow> nat list" where
  "inversePermutation p = map (indexOf p) [0..<length p]"

section \<open>Basic facts\<close>

lemma ebind_Inl [simp]: "ebind (Inl e) f = Inl e"
  by (simp add: ebind_def)

lemma ebind_Inr [simp]: "ebind (Inr a) f = f a"
  by (simp add: ebind_def)

lemma mulSize_exact: "a * b < 2 ^ 64 \<Longrightarrow> mulSize a b = a * b"
  by (simp add: mulSize_def)

lemma mulSize_mod: "a < 2 ^ 64 \<Longrightarrow> b < 2 ^ 64 \<Longrightarrow> mulSize a b = (a * b) mod 2 ^ 64"
  by (simp add: mulSize_def)

lemma mulSize_one [simp]: "mulSize a (Suc 0) = a"
  by (simp add: mulSize_def)

lemma toFloat_exact: "n < 2 ^ 24 \<Longrightarrow> toFloat n = n"
  by (simp add: toFloat_def bitShift.simps)

lemma toFloat_rounds: "toFloat (mulSize 4097 4097) = 16785408"
  by (simp add: mulSize_def toFloat_def bitShift.simps)

lemma mulSize_wraps: "toFloat (mulSize 4294967296 4294967296) = 0"
  by (simp add: mulSize_def toFloat_def bitShift.simps)

lemma fanIn_exact:
  assumes "k * k * C < 2 ^ 24"
  shows "toFloat (mulSize (mulSize k k) C) = k * k * C"
proof (cases "C = 0")
  case True
  then show ?thesis by (simp add: mulSize_def toFloat_exact)
next
  case False
  then obtain c where "C = Suc c" by (cases C) auto
  then have "k * k \<le> k * k * C" by simp
  from this assms have kk: "k * k < 2 ^ 24" by (rule le_less_trans)
  have "(2::nat) ^ 24 < 2 ^ 64" by simp
  with kk assms have "k * k < 2 ^ 64" and "k * k * C < 2 ^ 64" by simp_all
  then have "mulSize (mulSize k k) C = k * k * C" by (simp add: mulSize_exact)
  with assms show ?thesis by (simp add: toFloat_exact)
qed

lemmas module_eval =
  createStaticVariable_default_def createStaticVariable_named_def createStaticVariable_def
  createStaticVariableT_default_def createStaticVariableT_named_def createStaticVariableT_def
  uniqueType_def pushVar_def setName_def newStaticVariable_def emptyModule_def
  dims_def getType_def getElementType_def getName_def derefValue_def derefType_def

lemma ebind_eq_Inr: "ebind x f = Inr y \<longleftrightarrow> (\<exists>a. x = Inr a \<and> f a = Inr y)"
  by (cases x) simp_all

lemma assert_eq_Inr [simp]: "assert b msg = Inr u \<longleftrightarrow> b"
  by (simp add: assert_def)

lemma elemAt_eq_Inr: "elemAt xs i = Inr x \<longleftrightarrow> i < length xs \<and> xs ! i = x"
  by (simp add: elemAt_def)

lemma extends_refl [simp]: "extends m m"
  by (simp add: extends_def)

lemma extends_trans: "extends m1 m2 \<Longrightarrow> extends m2 m3 \<Longrightarrow> extends m1 m3"
  by (auto simp: extends_def)

lemma derefType_eq_Inr: "derefType m T = Inr t \<longleftrightarrow> T < length (types m) \<and> types m ! T = t"
  by (simp add: derefType_def)

lemma derefValue_eq_Inr: "derefValue m v = Inr A \<longleftrightarrow> v < length (vars m) \<and> vars m ! v = A"
  by (simp add: derefValue_def)

lemma derefType_extends: "derefType m T = Inr t \<Longrightarrow> extends m m' \<Longrightarrow> derefType m' T = Inr t"
  by (auto simp: derefType_eq_Inr extends_def prefix_def nth_append)

lemma derefValue_extends: "derefValue m v = Inr A \<Longrightarrow> extends m m' \<Longrightarrow> derefValue m' v = Inr A"
  by (auto simp: derefValue_eq_Inr extends_def prefix_def nth_append)

lemma getType_extends: "getType m v = Inr T \<Longrightarrow> extends m m' \<Longrightarrow> getType m' v = Inr T"
  by (auto simp: getType_def ebind_eq_Inr dest: derefValue_extends)

lemma dims_extends: "dims m v = Inr ds \<Longrightarrow> extends m m' \<Longrightarrow> dims m' v = Inr ds"
  unfolding dims_def ebind_eq_Inr
  by (metis getType_extends derefType_extends)

lemma getElementType_extends:
  "getElementType m v = Inr ek \<Longrightarrow> extends m m' \<Longrightarrow> getElementType m' v = Inr ek"
  unfolding getElementType_def ebind_eq_Inr
  by (metis getType_extends derefType_extends)

lemma findType_Some: "findType ts t = Some i \<Longrightarrow> i < length ts \<and> ts ! i = t"
  by (induction ts arbitrary: i) (auto split: if_splits)

lemma findType_None: "findType ts t = None \<longleftrightarrow> t \<notin> set ts"
  by (induction ts) auto

lemma findType_append_Some: "findType ts t = Some i \<Longrightarrow> findType (ts @ us) t = Some i"
  by (induction ts arbitrary: i) (auto split: if_splits)

lemma findType_snoc_new: "findType ts t = None \<Longrightarrow> findType (ts @ [t]) t = Some (length ts)"
  by (induction ts) (auto split: if_splits)

lemma uniqueType_spec:
  assumes "uniqueType m ek ds = (T, m')"
  shows "extends m m'" and "vars m' = vars m" and "instrs m' = instrs m"
    and "derefType m' T = Inr (Type ek ds)"
    and "findType (types m') (Type ek ds) = Some T"
  using assms
  by (auto simp: uniqueType_def extends_def derefType_eq_Inr nth_append findType_snoc_new
      dest: findType_Some split: option.splits)

lemma createStaticVariable_spec:
  assumes "createStaticVariable m ek ds nm ik sk v = (A, m')"
  shows "extends m m'" and "instrs m' = instrs m"
    and "\<exists>T. derefValue m' A = Inr \<lparr>ty = T, initKind = ik, shareKind = sk, val = v, name = Some nm\<rparr>
          \<and> derefType m' T = Inr (Type ek ds) \<and> findType (types m') (Type ek ds) = Some T"
    and "A = length (vars m)" and "length (vars m') = Suc (length (vars m))"
proof -
  obtain T m1 where u: "uniqueType m ek ds = (T, m1)" by (cases "uniqueType m ek ds")
  note us = uniqueType_spec[OF u]
  from assms u have A: "A = length (vars m1)"
    and m': "m' = setName (snd (pushVar m1 (newStaticVariable T ik sk v))) (length (vars m1)) nm"
    by (auto simp: createStaticVariable_def pushVar_def Let_def)
  have ty: "types m' = types m1" and vs: "vars m' = vars m1 @ [\<lparr>ty = T, initKind = ik, shareKind = sk, val = v, name = Some nm\<rparr>]"
    and ins: "instrs m' = instrs m1"
    by (simp_all add: m' setName_def pushVar_def newStaticVariable_def)
  show "extends m m'" using us(1) by (simp add: extends_def ty vs us(2))
  show "instrs m' = instrs m" by (simp add: ins us(3))
  show "A = length (vars m)" by (simp add: A us(2))
  show "length (vars m') = Suc (length (vars m))" by (simp add: vs us(2))
  show "\<exists>T. derefValue m' A = Inr \<lparr>ty = T, initKind = ik, shareKind = sk, val = v, name = Some nm\<rparr>
          \<and> derefType m' T = Inr (Type ek ds) \<and> findType (types m') (Type ek ds) = Some T"
    using us(4,5) by (intro exI[of _ T]) (simp add: derefValue_eq_Inr derefType_eq_Inr A vs ty)
qed

lemma createStaticVariableT_spec:
  assumes "createStaticVariableT m T nm ik sk v = (A, m')"
  shows "extends m m'" and "instrs m' = instrs m" and "types m' = types m"
    and "derefValue m' A = Inr \<lparr>ty = T, initKind = ik, shareKind = sk, val = v, name = None\<rparr>"
    and "A = length (vars m)"
  using assms
  by (auto simp: createStaticVariableT_def pushVar_def newStaticVariable_def extends_def
      derefValue_eq_Inr)

lemma assert_True [simp]: "assert True msg = Inr ()"
  by (simp add: assert_def)

lemma extends_instrs [simp]: "extends m (m'\<lparr>instrs := x\<rparr>) = extends m m'"
  by (simp add: extends_def)

lemma dims_instrs [simp]: "dims (m\<lparr>instrs := x\<rparr>) v = dims m v"
  by (simp add: dims_def getType_def derefValue_def derefType_def)

lemma getType_instrs [simp]: "getType (m\<lparr>instrs := x\<rparr>) v = getType m v"
  by (simp add: getType_def derefValue_def)

lemma derefValue_instrs [simp]: "derefValue (m\<lparr>instrs := x\<rparr>) v = derefValue m v"
  by (simp add: derefValue_def)

lemma derefType_instrs [simp]: "derefType (m\<lparr>instrs := x\<rparr>) T = derefType m T"
  by (simp add: derefType_def)

lemma getElementType_instrs [simp]: "getElementType (m\<lparr>instrs := x\<rparr>) v = getElementType m v"
  by (simp add: getElementType_def)

lemma getName_instrs [simp]: "getName (m\<lparr>instrs := x\<rparr>) v = getName m v"
  by (simp add: getName_def)

lemma createStaticVariable_later:
  assumes "createStaticVariable m ek ds nm ik sk v = (A, m')" and "extends m' m''"
  shows "dims m'' A = Inr ds" and "getElementType m'' A = Inr ek"
    and "\<exists>T. derefValue m'' A =
            Inr \<lparr>ty = T, initKind = ik, shareKind = sk, val = v, name = Some nm\<rparr>
          \<and> derefType m'' T = Inr (Type ek ds)"
proof -
  from createStaticVariable_spec(3)[OF assms(1)] obtain T where
    v: "derefValue m' A = Inr \<lparr>ty = T, initKind = ik, shareKind = sk, val = v, name = Some nm\<rparr>"
    and t: "derefType m' T = Inr (Type ek ds)" by blast
  have v': "derefValue m'' A = Inr \<lparr>ty = T, initKind = ik, shareKind = sk, val = v, name = Some nm\<rparr>"
    by (rule derefValue_extends[OF v assms(2)])
  have t': "derefType m'' T = Inr (Type ek ds)"
    by (rule derefType_extends[OF t assms(2)])
  show "dims m'' A = Inr ds" by (simp add: dims_def getType_def v' t')
  show "getElementType m'' A = Inr ek" by (simp add: getElementType_def getType_def v' t')
  show "\<exists>T. derefValue m'' A =
            Inr \<lparr>ty = T, initKind = ik, shareKind = sk, val = v, name = Some nm\<rparr>
          \<and> derefType m'' T = Inr (Type ek ds)" using v' t' by blast
qed

subsection \<open>Convolution\<close>

lemma createConvOp_shape:
  assumes d: "dims m input = Inr [N, H, W, C]" and k: "k \<le> H" "k \<le> W"
  shows "\<exists>dest filter' bias m'.
     createConvOp m input depth k s p =
       Inr (ConvolutionInst [dest, input, filter', bias] k s p depth, m')
     \<and> extends m m'
     \<and> instrs m' = instrs m @ [ConvolutionInst [dest, input, filter', bias] k s p depth]
     \<and> dims m' dest = Inr [N, (H + 2 * p - k) div s + 1, (W + 2 * p - k) div s + 1, depth]
     \<and> dims m' filter' = Inr [depth, k, k, C]
     \<and> (\<exists>T. derefValue m' filter' =
            Inr \<lparr>ty = T, initKind = kXavier, shareKind = kWeight,
                 val = real (toFloat (mulSize (mulSize k k) C)),
                 name = Some ''filter''\<rparr>)
     \<and> dims m' bias = Inr [depth]
     \<and> (\<exists>T. derefValue m' bias =
            Inr \<lparr>ty = T, initKind = kBroadcast, shareKind = kWeight, val = 0.1,
                 name = Some ''bias''\<rparr>)"
proof -
  let ?oh = "(H + 2 * p - k) div s + 1" and ?ow = "(W + 2 * p - k) div s + 1"
  obtain f m1 where c1: "createStaticVariable m FloatTy [depth, k, k, C] ''filter'' kXavier kWeight
      (real (toFloat (mulSize (mulSize k k) C))) = (f, m1)" by fastforce
  obtain b m2 where c2: "createStaticVariable m1 FloatTy [depth] ''bias'' kBroadcast kWeight 0.1
      = (b, m2)" by fastforce
  obtain o' m3 where c3: "createStaticVariable m2 FloatTy [N, ?oh, ?ow, depth] [] kExtern kActivation 0
      = (o', m3)" by fastforce
  note s1 = createStaticVariable_spec[OF c1]
  note s2 = createStaticVariable_spec[OF c2]
  note s3 = createStaticVariable_spec[OF c3]
  have e23: "extends m2 m3" by (rule s3(1))
  have e13: "extends m1 m3" by (rule extends_trans[OF s2(1) s3(1)])
  have e03: "extends m m3" by (rule extends_trans[OF s1(1) e13])
  let ?I = "ConvolutionInst [o', input, f, b] k s p depth"
  let ?m = "m3\<lparr>instrs := instrs m3 @ [?I]\<rparr>"
  have run: "createConvOp m input depth k s p = Inr (?I, ?m)"
    using k by (simp add: createConvOp_def d calculateOutputDims_def c1[simplified] c2[simplified]
        c3[simplified]
        createStaticVariable_default_def createConvolutionInst_def pushInstr_def)
  have "extends m ?m" using e03 by simp
  moreover have "instrs ?m = instrs m @ [?I]" by (simp add: s1(2) s2(2) s3(2))
  moreover have "dims ?m o' = Inr [N, ?oh, ?ow, depth]"
    using createStaticVariable_later(1)[OF c3 extends_refl] by simp
  moreover have "dims ?m f = Inr [depth, k, k, C]"
    using createStaticVariable_later(1)[OF c1 e13] by simp
  moreover have "\<exists>T. derefValue ?m f =
            Inr \<lparr>ty = T, initKind = kXavier, shareKind = kWeight,
                 val = real (toFloat (mulSize (mulSize k k) C)),
                 name = Some ''filter''\<rparr>"
    using createStaticVariable_later(3)[OF c1 e13] by auto
  moreover have "dims ?m b = Inr [depth]"
    using createStaticVariable_later(1)[OF c2 e23] by simp
  moreover have "\<exists>T. derefValue ?m b =
            Inr \<lparr>ty = T, initKind = kBroadcast, shareKind = kWeight, val = 0.1,
                 name = Some ''bias''\<rparr>"
    using createStaticVariable_later(3)[OF c2 e23] by auto
  ultimately show ?thesis using run by blast
qed

lemma toShapeNHWC_eq_Inr:
  "toShapeNHWC ds = Inr sh \<longleftrightarrow> ds = [dim_n sh, dim_h sh, dim_w sh, dim_c sh]"
  by (cases "(ds)" rule: toShapeNHWC.cases) auto

lemma createConvOp_Inr_pre:
  assumes "createConvOp m input depth k s p = Inr r"
  shows "\<exists>N H W C. dims m input = Inr [N, H, W, C] \<and> k \<le> H \<and> k \<le> W"
  using assms unfolding createConvOp_def ebind_eq_Inr toShapeNHWC_eq_Inr assert_eq_Inr
  by blast

lemma createConvOp_verify:
  assumes "createConvOp m input depth k s p = Inr (I, m')"
  shows "verify m' I = Inr ()"
proof -
  from createConvOp_Inr_pre[OF assms] obtain N H W C where
    d: "dims m input = Inr [N, H, W, C]" and k: "k \<le> H" "k \<le> W" by blast
  from createConvOp_shape[OF d k, of depth s p] assms obtain dest f b where
    I: "I = ConvolutionInst [dest, input, f, b] k s p depth"
    and e: "extends m m'"
    and dd: "dims m' dest = Inr [N, (H + 2 * p - k) div s + 1, (W + 2 * p - k) div s + 1, depth]"
    and df: "dims m' f = Inr [depth, k, k, C]"
    and db: "dims m' b = Inr [depth]" by auto
  have di: "dims m' input = Inr [N, H, W, C]" by (rule dims_extends[OF d e])
  show ?thesis
    using k by (simp add: I ConvolutionInst_verify_def getOperand_def elemAt_def di dd df db
        calculateOutputDims_def)
qed

subsection \<open>Pooling\<close>

lemma createPoolOp_shape:
  assumes d: "dims m input = Inr [N, H, W, C]" and k: "k \<le> H" "k \<le> W"
  shows "\<exists>dest srcXY m'.
     createPoolOp m input pk k s p = Inr (PoolInst [dest, input, srcXY] pk k s p, m')
     \<and> extends m m'
     \<and> instrs m' = instrs m @ [PoolInst [dest, input, srcXY] pk k s p]
     \<and> dims m' dest = Inr [N, (H + 2 * p - k) div s + 1, (W + 2 * p - k) div s + 1, C]
     \<and> getElementType m' srcXY = Inr IndexTy
     \<and> dims m' srcXY =
           Inr (if pk = kMax
                then [N, (H + 2 * p - k) div s + 1, (W + 2 * p - k) div s + 1, C, 2]
                else [])"
proof -
  let ?oh = "(H + 2 * p - k) div s + 1" and ?ow = "(W + 2 * p - k) div s + 1"
  let ?xs = "if pk = kMax then [N, ?oh, ?ow, C, 2] else []"
  obtain x m1 where c1: "createStaticVariable m IndexTy ?xs ''srcXY'' kExtern kActivation 0
      = (x, m1)" by fastforce
  obtain o' m2 where c2: "createStaticVariable m1 FloatTy [N, ?oh, ?ow, C] [] kExtern kActivation 0
      = (o', m2)" by fastforce
  note s1 = createStaticVariable_spec[OF c1]
  note s2 = createStaticVariable_spec[OF c2]
  have e02: "extends m m2" by (rule extends_trans[OF s1(1) s2(1)])
  let ?I = "PoolInst [o', input, x] pk k s p"
  let ?m = "m2\<lparr>instrs := instrs m2 @ [?I]\<rparr>"
  have run: "createPoolOp m input pk k s p = Inr (?I, ?m)"
  proof (cases "pk = kMax")
    case True
    with k c1 c2 show ?thesis
      by (simp add: createPoolOp_def d calculateOutputDims_def
          createStaticVariable_default_def createStaticVariable_named_def
          createPoolInst_def pushInstr_def)
  next
    case False
    with k c1 c2 show ?thesis
      by (simp add: createPoolOp_def d calculateOutputDims_def
          createStaticVariable_default_def createStaticVariable_named_def
          createPoolInst_def pushInstr_def)
  qed
  have "extends m ?m" using e02 by simp
  moreover have "instrs ?m = instrs m @ [?I]" by (simp add: s1(2) s2(2))
  moreover have "dims ?m o' = Inr [N, ?oh, ?ow, C]"
    using createStaticVariable_later(1)[OF c2 extends_refl] by simp
  moreover have "dims ?m x = Inr ?xs"
    using createStaticVariable_later(1)[OF c1 s2(1)] by simp
  moreover have "getElementType ?m x = Inr IndexTy"
    using createStaticVariable_later(2)[OF c1 s2(1)] by simp
  ultimately show ?thesis using run by blast
qed

lemma createPoolOp_Inr_pre:
  assumes "createPoolOp m input pk k s p = Inr r"
  shows "\<exists>N H W C. dims m input = Inr [N, H, W, C] \<and> k \<le> H \<and> k \<le> W"
  using assms unfolding createPoolOp_def ebind_eq_Inr toShapeNHWC_eq_Inr assert_eq_Inr
  by blast

lemma createPoolOp_verify:
  assumes "createPoolOp m input pk k s p = Inr (I, m')"
  shows "verify m' I = Inr ()"
proof -
  from createPoolOp_Inr_pre[OF assms] obtain N H W C where
    d: "dims m input = Inr [N, H, W, C]" and k: "k \<le> H" "k \<le> W" by blast
  from createPoolOp_shape[OF d k, of pk s p] assms obtain dest x where
    I: "I = PoolInst [dest, input, x] pk k s p"
    and e: "extends m m'"
    and dd: "dims m' dest = Inr [N, (H + 2 * p - k) div s + 1, (W + 2 * p - k) div s + 1, C]"
    and dx: "dims m' x = Inr (if pk = kMax
                then [N, (H + 2 * p - k) div s + 1, (W + 2 * p - k) div s + 1, C, 2]
                else [])" by auto
  have di: "dims m' input = Inr [N, H, W, C]" by (rule dims_extends[OF d e])
  show ?thesis
    using k by (cases "pk = kMax")
      (simp_all add: I PoolInst_verify_def getOperand_def elemAt_def di dd dx
        calculateOutputDims_def)
qed

subsection \<open>Names and SoftMax\<close>

lemma createStaticVariableT_name_unused:
  "createStaticVariableT m T nm ik sk v = createStaticVariableT m T nm' ik sk v"
  by (simp add: createStaticVariableT_def)

lemma getName_createStaticVariableT:
  "createStaticVariableT m T nm ik sk v = (A, m') \<Longrightarrow> getName m' A = Inr None"
  by (simp add: getName_def createStaticVariableT_spec(4))

lemma getName_createStaticVariable:
  "createStaticVariable m ek ds nm ik sk v = (A, m') \<Longrightarrow> getName m' A = Inr (Some nm)"
  using createStaticVariable_spec(3)[of m ek ds nm ik sk v A m']
  by (auto simp: getName_def)

lemma createSoftMaxOp_shape:
  assumes "getType m input = Inr T"
  shows "\<exists>res E m'. createSoftMaxOp m input selected = Inr (SoftMaxInst [res, input, E, selected], m')
     \<and> extends m m' \<and> getType m' res = Inr T \<and> getType m' E = Inr T \<and> getName m' E = Inr None"
proof -
  obtain r m1 where c1: "createStaticVariableT m T [] kExtern kActivation 0 = (r, m1)" by fastforce
  obtain E m2 where c2: "createStaticVariableT m1 T ''expected'' kExtern kActivation 0 = (E, m2)" by fastforce
  note s1 = createStaticVariableT_spec[OF c1]
  note s2 = createStaticVariableT_spec[OF c2]
  have g1: "getType m1 input = Inr T" by (rule getType_extends[OF assms s1(1)])
  let ?I = "SoftMaxInst [r, input, E, selected]"
  let ?m = "m2\<lparr>instrs := instrs m2 @ [?I]\<rparr>"
  have run: "createSoftMaxOp m input selected = Inr (?I, ?m)"
    by (simp add: createSoftMaxOp_def assms g1 c1 c2 createStaticVariableT_default_def
        createStaticVariableT_named_def createSoftMaxInst_def pushInstr_def)
  have "extends m ?m" using extends_trans[OF s1(1) s2(1)] by simp
  moreover have "getType ?m r = Inr T"
    using derefValue_extends[OF s1(4) s2(1)] by (simp add: getType_def)
  moreover have "getType ?m E = Inr T" using s2(4) by (simp add: getType_def)
  moreover have "getName ?m E = Inr None" using s2(4) by (simp add: getName_def)
  ultimately show ?thesis using run by blast
qed

lemma createSoftMaxOp_Inr_pre:
  assumes "createSoftMaxOp m input selected = Inr r"
  shows "\<exists>T. getType m input = Inr T"
  using assms unfolding createSoftMaxOp_def ebind_eq_Inr by blast

section \<open>Facts about the operators, one operator at a time\<close>

subsection \<open>Transpose\<close>

lemma dims_eq_Inr:
  "dims m v = Inr ds \<longleftrightarrow>
     (\<exists>A t. derefValue m v = Inr A \<and> derefType m (ty A) = Inr t \<and> dimsT t = ds)"
  by (auto simp: dims_def getType_def ebind_eq_Inr)

lemma getElementType_eq_Inr:
  "getElementType m v = Inr ek \<longleftrightarrow>
     (\<exists>A t. derefValue m v = Inr A \<and> derefType m (ty A) = Inr t \<and> getElementTypeT t = ek)"
  by (auto simp: getElementType_def getType_def ebind_eq_Inr)

lemma dims_Inr_getElementType: "dims m v = Inr ds \<Longrightarrow> \<exists>ek. getElementType m v = Inr ek"
  by (auto simp: dims_eq_Inr getElementType_eq_Inr)

lemma dims_Inr_getType: "dims m v = Inr ds \<Longrightarrow> \<exists>T. getType m v = Inr T"
  by (auto simp: dims_def ebind_eq_Inr)

lemma shuffleDims_eq:
  "shuffleDims is ds shuffle =
     (if \<forall>i\<in>set is. i < length shuffle \<and> shuffle ! i < length ds
      then Inr (map (\<lambda>i. ds ! (shuffle ! i)) is) else Inl IndexOutOfRange)"
  by (induction "is") (auto simp: elemAt_def)

lemma createTransposeOp_shape:
  assumes d: "dims m input = Inr ds"
    and ok: "\<forall>i<length ds. i < length shuffle \<and> shuffle ! i < length ds"
  shows "\<exists>dest m'.
     createTransposeOp m input shuffle = Inr (TransposeInst [dest, input] shuffle, m')
     \<and> extends m m'
     \<and> instrs m' = instrs m @ [TransposeInst [dest, input] shuffle]
     \<and> dims m' dest = Inr (map (\<lambda>i. ds ! (shuffle ! i)) [0..<length ds])"
proof -
  let ?out = "map (\<lambda>i. ds ! (shuffle ! i)) [0..<length ds]"
  from dims_Inr_getElementType[OF d] obtain ek where ek: "getElementType m input = Inr ek" ..
  obtain o' m1 where c1: "createStaticVariable m ek ?out [] kExtern kActivation 0 = (o', m1)"
    by fastforce
  note s1 = createStaticVariable_spec[OF c1]
  have sh: "shuffleDims [0..<length ds] ds shuffle = Inr ?out"
    using ok by (simp add: shuffleDims_eq)
  let ?I = "TransposeInst [o', input] shuffle"
  let ?m = "m1\<lparr>instrs := instrs m1 @ [?I]\<rparr>"
  have run: "createTransposeOp m input shuffle = Inr (?I, ?m)"
    by (simp add: createTransposeOp_def d sh ek c1 createStaticVariable_default_def
        createTransposeInst_def pushInstr_def)
  have "extends m ?m" using s1(1) by simp
  moreover have "instrs ?m = instrs m @ [?I]" by (simp add: s1(2))
  moreover have "dims ?m o' = Inr ?out"
    using createStaticVariable_later(1)[OF c1 extends_refl] by simp
  ultimately show ?thesis using run by blast
qed

lemma createTransposeOp_Inr_pre:
  assumes "createTransposeOp m input shuffle = Inr r"
  shows "\<exists>ds. dims m input = Inr ds
           \<and> (\<forall>i<length ds. i < length shuffle \<and> shuffle ! i < length ds)"
proof -
  from assms obtain ds shape where d: "dims m input = Inr ds"
    and s: "shuffleDims [0..<length ds] ds shuffle = Inr shape"
    unfolding createTransposeOp_def ebind_eq_Inr by blast
  from s have "\<forall>i<length ds. i < length shuffle \<and> shuffle ! i < length ds"
    by (simp add: shuffleDims_eq split: if_splits)
  with d show ?thesis by blast
qed

lemma TransposeInst_verify_eq:
  assumes "dims m src = Inr ds" and "dims m dest = Inr dds"
    and "\<forall>i<length ds. i < length shuffle \<and> shuffle ! i < length ds"
  shows "verify m (TransposeInst [dest, src] shuffle) =
           assert (dds = map (\<lambda>i. ds ! (shuffle ! i)) [0..<length ds]) ''Invalid transpose dims''"
  using assms by (simp add: TransposeInst_verify_def getOperand_def elemAt_def shuffleDims_eq)

lemma createTransposeOp_verify:
  assumes "createTransposeOp m input shuffle = Inr (I, m')"
  shows "verify m' I = Inr ()"
proof -
  from createTransposeOp_Inr_pre[OF assms] obtain ds where d: "dims m input = Inr ds"
    and ok: "\<forall>i<length ds. i < length shuffle \<and> shuffle ! i < length ds" by blast
  from createTransposeOp_shape[OF d ok] assms obtain dest where
    I: "I = TransposeInst [dest, input] shuffle" and e: "extends m m'"
    and dd: "dims m' dest = Inr (map (\<lambda>i. ds ! (shuffle ! i)) [0..<length ds])" by auto
  have di: "dims m' input = Inr ds" by (rule dims_extends[OF d e])
  show ?thesis unfolding I TransposeInst_verify_eq[OF di dd ok] by simp
qed

lemma shuffleDims_short:
  assumes "length shuffle < length ds"
  shows "shuffleDims [0..<length ds] ds shuffle = Inl IndexOutOfRange"
proof -
  have "length shuffle \<in> set [0..<length ds]" using assms by simp
  then have "\<not> (\<forall>i\<in>set [0..<length ds]. i < length shuffle \<and> shuffle ! i < length ds)"
    by (meson less_irrefl)
  then show ?thesis by (simp only: shuffleDims_eq if_False)
qed

lemma createTransposeOp_short:
  assumes d: "dims m input = Inr ds" and short: "length shuffle < length ds"
  shows "createTransposeOp m input shuffle = Inl IndexOutOfRange"
  by (simp add: createTransposeOp_def d shuffleDims_short[OF short])

lemma TransposeInst_verify_short:
  assumes d: "dims m src = Inr ds" and short: "length shuffle < length ds"
  shows "verify m (TransposeInst [dest, src] shuffle) = Inl IndexOutOfRange"
  by (simp add: TransposeInst_verify_def getOperand_def elemAt_def d shuffleDims_short[OF short])

subsection \<open>Inverse permutations\<close>

lemma indexOf_mem: "x \<in> set p \<Longrightarrow> indexOf p x < length p \<and> p ! indexOf p x = x"
  by (induction p) auto

lemma inversePermutation_props:
  assumes "isPermutation p r"
  shows "length (inversePermutation p) = r"
    and "\<forall>i<r. inversePermutation p ! i < r \<and> p ! (inversePermutation p ! i) = i"
    and "\<forall>i<r. p ! i < r"
proof -
  from assms have l: "length p = r" and s: "set p = {0..<r}" by (simp_all add: isPermutation_def)
  show "length (inversePermutation p) = r" by (simp add: inversePermutation_def l)
  show "\<forall>i<r. inversePermutation p ! i < r \<and> p ! (inversePermutation p ! i) = i"
  proof (intro allI impI)
    fix i assume "i < r"
    then have "i \<in> set p" by (simp add: s)
    from indexOf_mem[OF this] \<open>i < r\<close>
    show "inversePermutation p ! i < r \<and> p ! (inversePermutation p ! i) = i"
      by (simp add: inversePermutation_def l)
  qed
  show "\<forall>i<r. p ! i < r"
  proof (intro allI impI)
    fix i assume "i < r"
    then have "p ! i \<in> set p" by (simp add: l)
    then show "p ! i < r" by (simp add: s)
  qed
qed

lemma transpose_roundtrip_shape:
  assumes "isPermutation p (length S)"
  shows "map (\<lambda>i. map (\<lambda>j. S ! (p ! j)) [0..<length S] ! (inversePermutation p ! i)) [0..<length S] = S"
proof -
  note ip = inversePermutation_props[OF assms]
  have "map (\<lambda>i. map (\<lambda>j. S ! (p ! j)) [0..<length S] ! (inversePermutation p ! i)) [0..<length S]
      = map (\<lambda>i. S ! i) [0..<length S]"
    using ip(2) by (intro map_cong refl) simp
  then show ?thesis by (simp add: map_nth)
qed

lemma createTransposeOp_roundtrip:
  assumes d: "dims m input = Inr S" and p: "isPermutation p (length S)"
  shows "\<exists>dest m'.
      createTransposeOp m input p = Inr (TransposeInst [dest, input] p, m')
      \<and> (\<exists>T. dims m' dest = Inr T \<and> T = map (\<lambda>i. S ! (p ! i)) [0..<length S]
              \<and> length T = length S \<and> (\<forall>i<length S. T ! i = S ! (p ! i)))
      \<and> (\<exists>dest2 m''.
            createTransposeOp m' dest (inversePermutation p) =
              Inr (TransposeInst [dest2, dest] (inversePermutation p), m'')
            \<and> dims m'' dest2 = Inr S)"
proof -
  note ip = inversePermutation_props[OF p]
  from p have lp: "length p = length S" by (simp add: isPermutation_def)
  let ?T = "map (\<lambda>i. S ! (p ! i)) [0..<length S]"
  have ok1: "\<forall>i<length S. i < length p \<and> p ! i < length S" using ip(3) lp by simp
  from createTransposeOp_shape[OF d ok1] obtain dest m' where
    r1: "createTransposeOp m input p = Inr (TransposeInst [dest, input] p, m')"
    and d1: "dims m' dest = Inr ?T" by blast
  have ok2: "\<forall>i<length ?T. i < length (inversePermutation p) \<and> inversePermutation p ! i < length ?T"
    using ip(1,2) by simp
  from createTransposeOp_shape[OF d1 ok2] obtain dest2 m'' where
    r2: "createTransposeOp m' dest (inversePermutation p) =
           Inr (TransposeInst [dest2, dest] (inversePermutation p), m'')"
    and d2: "dims m'' dest2 = Inr (map (\<lambda>i. ?T ! (inversePermutation p ! i)) [0..<length ?T])"
    by blast
  have "dims m'' dest2 = Inr S"
    using d2 transpose_roundtrip_shape[OF p] by simp
  with r1 d1 r2 show ?thesis by auto
qed

lemma indexOf_nth: "distinct p \<Longrightarrow> j < length p \<Longrightarrow> indexOf p (p ! j) = j"
proof (induction p arbitrary: j)
  case Nil
  then show ?case by simp
next
  case (Cons x xs)
  show ?case
  proof (cases j)
    case 0
    then show ?thesis by simp
  next
    case (Suc j')
    with Cons.prems have "xs ! j' \<in> set xs" and "x \<notin> set xs" by simp_all
    then have "x \<noteq> xs ! j'" by blast
    with Suc Cons show ?thesis by simp
  qed
qed

lemma isPermutation_distinct: "isPermutation p r \<Longrightarrow> distinct p"
  by (simp add: isPermutation_def card_distinct)

lemma inversePermutation_isPermutation:
  assumes "isPermutation p r"
  shows "isPermutation (inversePermutation p) r"
    and "\<forall>i<r. inversePermutation p ! (p ! i) = i"
proof -
  note ip = inversePermutation_props[OF assms]
  from assms have l: "length p = r" by (simp add: isPermutation_def)
  have dist: "distinct p" by (rule isPermutation_distinct[OF assms])
  show inv: "\<forall>i<r. inversePermutation p ! (p ! i) = i"
    using ip(3) indexOf_nth[OF dist] l by (simp add: inversePermutation_def)
  have "set (inversePermutation p) = {0..<r}"
  proof (intro equalityI subsetI)
    fix x assume "x \<in> set (inversePermutation p)"
    then obtain i where "i < r" "x = inversePermutation p ! i"
      using ip(1) by (auto simp: in_set_conv_nth)
    with ip(2) show "x \<in> {0..<r}" by simp
  next
    fix x assume "x \<in> {0..<r}"
    then have x: "x < r" by simp
    with ip(3) have "p ! x < r" by simp
    then have "inversePermutation p ! (p ! x) \<in> set (inversePermutation p)"
      using ip(1) by simp
    with inv x show "x \<in> set (inversePermutation p)" by simp
  qed
  with ip(1) show "isPermutation (inversePermutation p) r" by (simp add: isPermutation_def)
qed

subsection \<open>Concat\<close>

lemma checkInputShapes_eq_Inr:
  "checkInputShapes m vs inDim = Inr u \<longleftrightarrow> (\<forall>v\<in>set vs. dims m v = Inr inDim)"
  by (induction vs) (auto simp: ebind_eq_Inr)

lemma stackAlong_eq_Inr:
  "stackAlong shape d c = Inr out \<longleftrightarrow> d < length shape \<and> out = shape[d := mulSize (shape ! d) c]"
  by (auto simp: stackAlong_def)

lemma createConcatOp_shape:
  assumes ne: "inputs \<noteq> []" and all: "\<forall>v\<in>set inputs. dims m v = Inr S" and k: "k < length S"
  shows "\<exists>dest m'.
     createConcatOp m inputs k = Inr (ConcatInst (dest # inputs) k, m')
     \<and> extends m m'
     \<and> instrs m' = instrs m @ [ConcatInst (dest # inputs) k]
     \<and> dims m' dest = Inr (S[k := mulSize (S ! k) (length inputs)])"
proof -
  let ?out = "S[k := mulSize (S ! k) (length inputs)]"
  from ne obtain in0 rest where inp: "inputs = in0 # rest" by (cases inputs) auto
  have d0: "dims m in0 = Inr S" using all inp by simp
  from dims_Inr_getElementType[OF d0] obtain ek where ek: "getElementType m in0 = Inr ek" ..
  obtain o' m1 where c1: "createStaticVariable m ek ?out [] kExtern kActivation 0 = (o', m1)"
    by fastforce
  note s1 = createStaticVariable_spec[OF c1]
  have chk: "checkInputShapes m inputs S = Inr ()"
    using all by (simp add: checkInputShapes_eq_Inr)
  let ?I = "ConcatInst (o' # inputs) k"
  let ?m = "m1\<lparr>instrs := instrs m1 @ [?I]\<rparr>"
  have e0: "elemAt inputs 0 = Inr in0" by (simp add: elemAt_def inp)
  have st: "stackAlong S k (length inputs) = Inr ?out" using k by (simp add: stackAlong_def)
  have run: "createConcatOp m inputs k = Inr (?I, ?m)"
    by (simp add: createConcatOp_def e0 d0 chk st ek c1 createStaticVariable_default_def
        createConcatInst_def pushInstr_def)
  have "extends m ?m" using s1(1) by simp
  moreover have "instrs ?m = instrs m @ [?I]" by (simp add: s1(2))
  moreover have "dims ?m o' = Inr ?out"
    using createStaticVariable_later(1)[OF c1 extends_refl] by simp
  ultimately show ?thesis using run by blast
qed

lemma createConcatOp_Inr_pre:
  assumes "createConcatOp m inputs k = Inr r"
  shows "inputs \<noteq> [] \<and> (\<exists>S. (\<forall>v\<in>set inputs. dims m v = Inr S) \<and> k < length S)"
proof -
  from assms obtain in0 S u shape where e0: "elemAt inputs 0 = Inr in0"
    and chk: "checkInputShapes m inputs S = Inr u"
    and st: "stackAlong S k (length inputs) = Inr shape"
    unfolding createConcatOp_def ebind_eq_Inr by blast
  from e0 have "inputs \<noteq> []" by (auto simp: elemAt_def split: if_splits)
  moreover from chk have "\<forall>v\<in>set inputs. dims m v = Inr S" by (simp add: checkInputShapes_eq_Inr)
  moreover from st have "k < length S" by (simp add: stackAlong_eq_Inr)
  ultimately show ?thesis by blast
qed

lemma ConcatInst_verify_eq:
  assumes ne: "srcs \<noteq> []" and all: "\<forall>v\<in>set srcs. dims m v = Inr S" and k: "k < length S"
    and dd: "dims m dest = Inr D"
  shows "verify m (ConcatInst (dest # srcs) k) =
           assert (D = S[k := mulSize (S ! k) (length srcs)]) ''Invalid output shape''"
proof -
  from ne obtain in0 rest where s: "srcs = in0 # rest" by (cases srcs) auto
  have d0: "dims m in0 = Inr S" using all s by simp
  have chk: "checkInputShapes m rest S = Inr ()"
    using all s by (simp add: checkInputShapes_eq_Inr)
  show ?thesis
    using k by (simp add: ConcatInst_verify_def getNumOperands_def getOperand_def elemAt_def s d0
        chk stackAlong_def dd)
qed

lemma createConcatOp_verify:
  assumes "createConcatOp m inputs k = Inr (I, m')"
  shows "verify m' I = Inr ()"
proof -
  from createConcatOp_Inr_pre[OF assms] obtain S where ne: "inputs \<noteq> []"
    and all: "\<forall>v\<in>set inputs. dims m v = Inr S" and k: "k < length S" by blast
  from createConcatOp_shape[OF ne all k] assms obtain dest where
    I: "I = ConcatInst (dest # inputs) k" and e: "extends m m'"
    and dd: "dims m' dest = Inr (S[k := mulSize (S ! k) (length inputs)])" by auto
  have all': "\<forall>v\<in>set inputs. dims m' v = Inr S" using all dims_extends[OF _ e] by blast
  show ?thesis unfolding I ConcatInst_verify_eq[OF ne all' k dd] by simp
qed

lemma ConcatInst_verify_no_source:
  "verify m (ConcatInst [dest] k) = Inl (AssertionFailure ''Invalid number of operands'')"
  "verify m (ConcatInst [] k) = Inl (AssertionFailure ''Invalid number of operands'')"
  by (simp_all add: ConcatInst_verify_def getNumOperands_def assert_def)

subsection \<open>FullyConnected\<close>

lemma flattenCdr_eq_Inr: "flattenCdr ds = Inr r \<longleftrightarrow> (\<exists>d rest. ds = d # rest \<and> r = (d, prod_list rest))"
  by (cases ds) auto

lemma createFullyConnectedOp_shape:
  assumes d: "dims m input = Inr (b # rest)"
  shows "\<exists>dest W B m'.
     createFullyConnectedOp m input outDepth =
       Inr (FullyConnectedInst [dest, input, W, B] outDepth, m')
     \<and> extends m m'
     \<and> dims m' dest = Inr [b, outDepth]
     \<and> dims m' W = Inr [outDepth, prod_list rest]
     \<and> dims m' B = Inr [outDepth]"
proof -
  from d obtain A t where A: "derefValue m input = Inr A" and t: "derefType m (ty A) = Inr t"
    by (auto simp: dims_eq_Inr)
  have gt: "getType m input = Inr (ty A)" by (simp add: getType_def A)
  let ?ek = "getElementTypeT t"
  obtain w m1 where c1: "createStaticVariable m ?ek [outDepth, prod_list rest] ''weights''
      kXavier kWeight (real (toFloat (prod_list rest))) = (w, m1)" by fastforce
  obtain bi m2 where c2: "createStaticVariable m1 ?ek [outDepth] ''bias'' kBroadcast kWeight 0.1
      = (bi, m2)" by fastforce
  obtain o' m3 where c3: "createStaticVariable m2 ?ek [b, outDepth] [] kExtern kActivation 0
      = (o', m3)" by fastforce
  note s1 = createStaticVariable_spec[OF c1]
  note s2 = createStaticVariable_spec[OF c2]
  note s3 = createStaticVariable_spec[OF c3]
  have e13: "extends m1 m3" by (rule extends_trans[OF s2(1) s3(1)])
  have e03: "extends m m3" by (rule extends_trans[OF s1(1) e13])
  let ?I = "FullyConnectedInst [o', input, w, bi] outDepth"
  let ?m = "m3\<lparr>instrs := instrs m3 @ [?I]\<rparr>"
  have run: "createFullyConnectedOp m input outDepth = Inr (?I, ?m)"
    by (simp add: createFullyConnectedOp_def gt d t c1[simplified] c2[simplified] c3[simplified]
        createStaticVariable_default_def createFullyConnectedInst_def pushInstr_def)
  have "extends m ?m" using e03 by simp
  moreover have "dims ?m o' = Inr [b, outDepth]"
    using createStaticVariable_later(1)[OF c3 extends_refl] by simp
  moreover have "dims ?m w = Inr [outDepth, prod_list rest]"
    using createStaticVariable_later(1)[OF c1 e13] by simp
  moreover have "dims ?m bi = Inr [outDepth]"
    using createStaticVariable_later(1)[OF c2 s3(1)] by simp
  ultimately show ?thesis using run by blast
qed

lemma createFullyConnectedOp_Inr_pre:
  assumes "createFullyConnectedOp m input outDepth = Inr r"
  shows "\<exists>b rest. dims m input = Inr (b # rest)"
  using assms unfolding createFullyConnectedOp_def ebind_eq_Inr flattenCdr_eq_Inr by blast

lemma createFullyConnectedOp_verify:
  assumes "createFullyConnectedOp m input outDepth = Inr (I, m')"
  shows "verify m' I = Inr ()"
proof -
  from createFullyConnectedOp_Inr_pre[OF assms] obtain b rest where
    d: "dims m input = Inr (b # rest)" by blast
  from createFullyConnectedOp_shape[OF d, of outDepth] assms obtain dest W B where
    I: "I = FullyConnectedInst [dest, input, W, B] outDepth" and e: "extends m m'"
    and dd: "dims m' dest = Inr [b, outDepth]"
    and dw: "dims m' W = Inr [outDepth, prod_list rest]"
    and db: "dims m' B = Inr [outDepth]" by auto
  have di: "dims m' input = Inr (b # rest)" by (rule dims_extends[OF d e])
  show ?thesis
    by (simp add: I FullyConnectedInst_verify_def getOperand_def elemAt_def di dd dw db)
qed

subsection \<open>Operators whose output has the type of the input\<close>

lemma checkSameType_eq_Inr:
  "checkSameType m A B = Inr u \<longleftrightarrow> (\<exists>T. getType m A = Inr T \<and> getType m B = Inr T)"
  by (auto simp: checkSameType_def ebind_eq_Inr)

lemma createStaticVariableT_later:
  assumes "createStaticVariableT m T nm ik sk v = (A, m')" and "extends m' m''"
  shows "getType m'' A = Inr T" and "getName m'' A = Inr None"
  using derefValue_extends[OF createStaticVariableT_spec(4)[OF assms(1)] assms(2)]
  by (simp_all add: getType_def getName_def)

lemma createRELUOp_verify:
  assumes "createRELUOp m input = Inr (I, m')"
  shows "verify m' I = Inr ()"
proof -
  from assms obtain T where g: "getType m input = Inr T"
    unfolding createRELUOp_def ebind_eq_Inr by blast
  obtain r m1 where c: "createStaticVariableT m T [] kExtern kActivation 0 = (r, m1)" by fastforce
  from assms have I: "I = ReluInst [r, input]" and m': "m' = m1\<lparr>instrs := instrs m1 @ [I]\<rparr>"
    by (auto simp: createRELUOp_def g c createStaticVariableT_default_def createReluInst_def
        pushInstr_def)
  have "getType m1 r = Inr T" by (rule createStaticVariableT_later(1)[OF c extends_refl])
  moreover have "getType m1 input = Inr T"
    by (rule getType_extends[OF g createStaticVariableT_spec(1)[OF c]])
  ultimately show ?thesis
    by (simp add: I m' verifySameType01_def getOperand_def elemAt_def checkSameType_def)
qed

lemma createSigmoidOp_verify:
  assumes "createSigmoidOp m input = Inr (I, m')"
  shows "verify m' I = Inr ()"
proof -
  from assms obtain T where g: "getType m input = Inr T"
    unfolding createSigmoidOp_def ebind_eq_Inr by blast
  obtain r m1 where c: "createStaticVariableT m T [] kExtern kActivation 0 = (r, m1)" by fastforce
  from assms have I: "I = SigmoidInst [r, input]" and m': "m' = m1\<lparr>instrs := instrs m1 @ [I]\<rparr>"
    by (auto simp: createSigmoidOp_def g c createStaticVariableT_default_def
        createSigmoidInst_def pushInstr_def)
  have "getType m1 r = Inr T" by (rule createStaticVariableT_later(1)[OF c extends_refl])
  moreover have "getType m1 input = Inr T"
    by (rule getType_extends[OF g createStaticVariableT_spec(1)[OF c]])
  ultimately show ?thesis
    by (simp add: I m' verifySameType01_def getOperand_def elemAt_def checkSameType_def)
qed

lemma createTanhOp_verify:
  assumes "createTanhOp m input = Inr (I, m')"
  shows "verify m' I = Inr ()"
proof -
  from assms obtain T where g: "getType m input = Inr T"
    unfolding createTanhOp_def ebind_eq_Inr by blast
  obtain r m1 where c: "createStaticVariableT m T [] kExtern kActivation 0 = (r, m1)" by fastforce
  from assms have I: "I = TanhInst [r, input]" and m': "m' = m1\<lparr>instrs := instrs m1 @ [I]\<rparr>"
    by (auto simp: createTanhOp_def g c createStaticVariableT_default_def createTanhInst_def
        pushInstr_def)
  have "getType m1 r = Inr T" by (rule createStaticVariableT_later(1)[OF c extends_refl])
  moreover have "getType m1 input = Inr T"
    by (rule getType_extends[OF g createStaticVariableT_spec(1)[OF c]])
  ultimately show ?thesis
    by (simp add: I m' verifySameType01_def getOperand_def elemAt_def checkSameType_def)
qed

lemma createRegressionOp_verify:
  assumes "createRegressionOp m input expected = Inr (I, m')"
  shows "verify m' I = Inr ()"
proof -
  from assms obtain T where g: "getType m input = Inr T"
    unfolding createRegressionOp_def ebind_eq_Inr by blast
  obtain r m1 where c: "createStaticVariableT m T [] kExtern kActivation 0 = (r, m1)" by fastforce
  from assms have I: "I = RegressionInst [r, input, expected]"
    and m': "m' = m1\<lparr>instrs := instrs m1 @ [I]\<rparr>"
    by (auto simp: createRegressionOp_def g c createStaticVariableT_default_def
        createRegressionInst_def pushInstr_def)
  have "getType m1 r = Inr T" by (rule createStaticVariableT_later(1)[OF c extends_refl])
  moreover have "getType m1 input = Inr T"
    by (rule getType_extends[OF g createStaticVariableT_spec(1)[OF c]])
  ultimately show ?thesis
    by (simp add: I m' verifySameType01_def getOperand_def elemAt_def checkSameType_def)
qed

lemma createSoftMaxOp_verify:
  assumes "createSoftMaxOp m input selected = Inr (I, m')"
  shows "verify m' I = Inr ()"
proof -
  from createSoftMaxOp_Inr_pre[OF assms] obtain T where g: "getType m input = Inr T" ..
  from createSoftMaxOp_shape[OF g, of selected] assms obtain res E where
    I: "I = SoftMaxInst [res, input, E, selected]" and e: "extends m m'"
    and gr: "getType m' res = Inr T" by auto
  have "getType m' input = Inr T" by (rule getType_extends[OF g e])
  with gr show ?thesis
    by (simp add: I verifySameType01_def getOperand_def elemAt_def checkSameType_def)
qed

subsection \<open>Reshape\<close>

lemma createReshapeOp_shape:
  assumes "getElementType m input = Inr ek"
  shows "\<exists>res m'.
     createReshapeOp m input shape = Inr (ReshapeInst [res, input] shape, m')
     \<and> extends m m'
     \<and> instrs m' = instrs m @ [ReshapeInst [res, input] shape]
     \<and> dims m' res = Inr shape"
proof -
  obtain r m1 where c: "createStaticVariable m ek shape [] kExtern kActivation 0 = (r, m1)"
    by fastforce
  note s = createStaticVariable_spec[OF c]
  let ?I = "ReshapeInst [r, input] shape"
  let ?m = "m1\<lparr>instrs := instrs m1 @ [?I]\<rparr>"
  have run: "createReshapeOp m input shape = Inr (?I, ?m)"
    by (simp add: createReshapeOp_def assms c createStaticVariable_default_def
        createReshapeInst_def pushInstr_def)
  have "extends m ?m" using s(1) by simp
  moreover have "instrs ?m = instrs m @ [?I]" by (simp add: s(2))
  moreover have "dims ?m r = Inr shape"
    using createStaticVariable_later(1)[OF c extends_refl] by simp
  ultimately show ?thesis using run by blast
qed

lemma createReshapeOp_Inr_pre:
  assumes "createReshapeOp m input shape = Inr r"
  shows "\<exists>ek. getElementType m input = Inr ek"
  using assms unfolding createReshapeOp_def ebind_eq_Inr by blast

lemma getElementType_Inr_dims: "getElementType m v = Inr ek \<Longrightarrow> \<exists>ds. dims m v = Inr ds"
  by (auto simp: dims_eq_Inr getElementType_eq_Inr)

lemma ReshapeInst_verify_eq:
  assumes "dims m dest = Inr s1" and "dims m src = Inr s2"
  shows "verify m (ReshapeInst [dest, src] shape) =
           assert (prod_list s1 = prod_list s2) ''Reshape into a different size''"
proof -
  from assms(1) obtain A t where A: "derefValue m dest = Inr A"
    and t: "derefType m (ty A) = Inr t" and s1: "dimsT t = s1" by (auto simp: dims_eq_Inr)
  from assms(2) obtain B u where B: "derefValue m src = Inr B"
    and u: "derefType m (ty B) = Inr u" and s2: "dimsT u = s2" by (auto simp: dims_eq_Inr)
  show ?thesis
    by (simp add: ReshapeInst_verify_def getOperand_def elemAt_def getType_def A B t u sizeT_def
        s1 s2)
qed

lemma createReshapeOp_verify_iff:
  assumes "createReshapeOp m input shape = Inr (I, m')" and d: "dims m input = Inr ds"
  shows "verify m' I = Inr () \<longleftrightarrow> prod_list shape = prod_list ds"
proof -
  from createReshapeOp_Inr_pre[OF assms(1)] obtain ek where ek: "getElementType m input = Inr ek" ..
  from createReshapeOp_shape[OF ek, of shape] assms(1) obtain res where
    I: "I = ReshapeInst [res, input] shape" and e: "extends m m'"
    and dr: "dims m' res = Inr shape" by auto
  have di: "dims m' input = Inr ds" by (rule dims_extends[OF d e])
  show ?thesis unfolding I ReshapeInst_verify_eq[OF dr di] by simp
qed

subsection \<open>Arithmetic\<close>

lemma createArithmeticOp_shape:
  assumes dl: "dims m LHS = Inr ds" and dr: "dims m RHS = Inr ds"
  shows "\<exists>res T m'.
     createArithmeticOp m LHS RHS k = Inr (ArithmeticInst [res, LHS, RHS] k, m')
     \<and> extends m m' \<and> getType m LHS = Inr T \<and> getType m' res = Inr T"
proof -
  from dims_Inr_getType[OF dl] obtain T where g: "getType m LHS = Inr T" ..
  obtain r m1 where c: "createStaticVariableT m T [] kExtern kActivation 0 = (r, m1)" by fastforce
  let ?I = "ArithmeticInst [r, LHS, RHS] k"
  let ?m = "m1\<lparr>instrs := instrs m1 @ [?I]\<rparr>"
  have run: "createArithmeticOp m LHS RHS k = Inr (?I, ?m)"
    by (simp add: createArithmeticOp_def dl dr g c createStaticVariableT_default_def
        createArithmeticInst_def pushInstr_def)
  have "extends m ?m" using createStaticVariableT_spec(1)[OF c] by simp
  moreover have "getType ?m r = Inr T"
    using createStaticVariableT_later(1)[OF c extends_refl] by simp
  ultimately show ?thesis using run g by blast
qed

lemma createArithmeticOp_Inr_pre:
  assumes "createArithmeticOp m LHS RHS k = Inr r"
  shows "\<exists>ds. dims m LHS = Inr ds \<and> dims m RHS = Inr ds"
  using assms unfolding createArithmeticOp_def ebind_eq_Inr assert_eq_Inr by blast

lemma createArithmeticOp_verify_iff:
  assumes "createArithmeticOp m LHS RHS k = Inr (I, m')"
  shows "verify m' I = Inr () \<longleftrightarrow> getType m LHS = getType m RHS"
proof -
  from createArithmeticOp_Inr_pre[OF assms] obtain ds where
    dl: "dims m LHS = Inr ds" and dr: "dims m RHS = Inr ds" by blast
  from createArithmeticOp_shape[OF dl dr, of k] assms obtain res T where
    I: "I = ArithmeticInst [res, LHS, RHS] k" and e: "extends m m'"
    and gl: "getType m LHS = Inr T" and gr: "getType m' res = Inr T" by auto
  from dims_Inr_getType[OF dr] obtain T' where g2: "getType m RHS = Inr T'" ..
  have gl': "getType m' LHS = Inr T" by (rule getType_extends[OF gl e])
  have g2': "getType m' RHS = Inr T'" by (rule getType_extends[OF g2 e])
  show ?thesis
    by (simp add: I ArithmeticInst_verify_def verifySameType01_def getOperand_def elemAt_def
        checkSameType_def gr gl' g2' gl g2 assert_def)
qed

subsection \<open>BatchNormalization\<close>

lemma createBatchNormalizationOp_shape:
  assumes d: "dims m input = Inr ds" and c: "channelIdx < length ds"
  shows "\<exists>dest gamma beta mean var T m'.
     createBatchNormalizationOp m input channelIdx epsilon momentum =
       Inr (BatchNormalizationInst [dest, input, gamma, beta, mean, var]
              channelIdx epsilon momentum, m')
     \<and> extends m m'
     \<and> getType m input = Inr T \<and> getType m' dest = Inr T
     \<and> dims m' gamma = Inr [ds ! channelIdx] \<and> dims m' beta = Inr [ds ! channelIdx]
     \<and> dims m' mean = Inr [ds ! channelIdx] \<and> dims m' var = Inr [ds ! channelIdx]"
proof -
  let ?ch = "ds ! channelIdx"
  from dims_Inr_getType[OF d] obtain T where g: "getType m input = Inr T" ..
  obtain be m1 where c1: "createStaticVariable m FloatTy [?ch] ''beta'' kBroadcast kWeight 0
      = (be, m1)" by fastforce
  obtain ga m2 where c2: "createStaticVariable m1 FloatTy [?ch] ''gamma'' kBroadcast kWeight 1
      = (ga, m2)" by fastforce
  obtain me m3 where c3: "createStaticVariable m2 FloatTy [?ch] ''mean'' kExtern kActivation 0
      = (me, m3)" by fastforce
  obtain va m4 where c4: "createStaticVariable m3 FloatTy [?ch] ''variance'' kExtern kActivation 0
      = (va, m4)" by fastforce
  obtain o' m5 where c5: "createStaticVariableT m4 T [] kExtern kActivation 0 = (o', m5)"
    by fastforce
  note s1 = createStaticVariable_spec(1)[OF c1]
  note s2 = createStaticVariable_spec(1)[OF c2]
  note s3 = createStaticVariable_spec(1)[OF c3]
  note s4 = createStaticVariable_spec(1)[OF c4]
  note s5 = createStaticVariableT_spec(1)[OF c5]
  have e45: "extends m4 m5" by (rule s5)
  have e35: "extends m3 m5" by (rule extends_trans[OF s4 e45])
  have e25: "extends m2 m5" by (rule extends_trans[OF s3 e35])
  have e15: "extends m1 m5" by (rule extends_trans[OF s2 e25])
  have e05: "extends m m5" by (rule extends_trans[OF s1 e15])
  have e04: "extends m m4"
    by (rule extends_trans[OF s1 extends_trans[OF s2 extends_trans[OF s3 s4]]])
  have g4: "getType m4 input = Inr T" by (rule getType_extends[OF g e04])
  let ?I = "BatchNormalizationInst [o', input, ga, be, me, va] channelIdx epsilon momentum"
  let ?m = "m5\<lparr>instrs := instrs m5 @ [?I]\<rparr>"
  have ea: "elemAt ds channelIdx = Inr ?ch" using c by (simp add: elemAt_def)
  have run: "createBatchNormalizationOp m input channelIdx epsilon momentum = Inr (?I, ?m)"
    by (simp add: createBatchNormalizationOp_def d ea c1 c2 c3 c4 g4 c5
        createStaticVariable_named_def createStaticVariableT_default_def
        createBatchNormalizationInst_def pushInstr_def)
  have "extends m ?m" using e05 by simp
  moreover have "getType ?m o' = Inr T"
    using createStaticVariableT_later(1)[OF c5 extends_refl] by simp
  moreover have "dims ?m ga = Inr [?ch]" using createStaticVariable_later(1)[OF c2 e25] by simp
  moreover have "dims ?m be = Inr [?ch]" using createStaticVariable_later(1)[OF c1 e15] by simp
  moreover have "dims ?m me = Inr [?ch]" using createStaticVariable_later(1)[OF c3 e35] by simp
  moreover have "dims ?m va = Inr [?ch]" using createStaticVariable_later(1)[OF c4 e45] by simp
  ultimately show ?thesis using run g by blast
qed

lemma createBatchNormalizationOp_Inr_pre:
  assumes "createBatchNormalizationOp m input channelIdx epsilon momentum = Inr r"
  shows "\<exists>ds. dims m input = Inr ds \<and> channelIdx < length ds"
  using assms unfolding createBatchNormalizationOp_def ebind_eq_Inr elemAt_eq_Inr by blast

lemma dims_via_getType:
  assumes "getType m v = Inr T" and "getType m' v' = Inr T" and "dims m v = Inr ds"
    and "extends m m'"
  shows "dims m' v' = Inr ds"
proof -
  from assms(1,3) obtain t where "derefType m T = Inr t" and "dimsT t = ds"
    by (auto simp: dims_def ebind_eq_Inr)
  with derefType_extends[OF _ assms(4)] assms(2) show ?thesis by (simp add: dims_def)
qed

lemma createBatchNormalizationOp_verify:
  assumes "createBatchNormalizationOp m input channelIdx epsilon momentum = Inr (I, m')"
  shows "verify m' I = Inr ()"
proof -
  from createBatchNormalizationOp_Inr_pre[OF assms] obtain ds where
    d: "dims m input = Inr ds" and c: "channelIdx < length ds" by blast
  from createBatchNormalizationOp_shape[OF d c, of epsilon momentum] assms
  obtain dest gamma beta mean var T where
    I: "I = BatchNormalizationInst [dest, input, gamma, beta, mean, var]
              channelIdx epsilon momentum"
    and e: "extends m m'" and gi: "getType m input = Inr T" and gd: "getType m' dest = Inr T"
    and ds: "dims m' gamma = Inr [ds ! channelIdx]" "dims m' beta = Inr [ds ! channelIdx]"
      "dims m' mean = Inr [ds ! channelIdx]" "dims m' var = Inr [ds ! channelIdx]" by auto
  have gi': "getType m' input = Inr T" by (rule getType_extends[OF gi e])
  have dd: "dims m' dest = Inr ds" by (rule dims_via_getType[OF gi gd d e])
  show ?thesis
    using c by (simp add: I BatchNormalizationInst_verify_def verifySameType01_def getOperand_def
        elemAt_def checkSameType_def gd gi' dd ds)
qed

subsection \<open>The example modules\<close>

lemma exampleModule_eq:
  "exampleModule =
     \<lparr>types = [Type FloatTy [2, 4, 4, 6], Type IndexTy [2, 4, 4, 6], Type FloatTy [2, 3],
               Type FloatTy [3, 2], Type FloatTy [5]],
      vars = [\<lparr>ty = 0, initKind = kExtern, shareKind = kActivation, val = 0, name = Some []\<rparr>,
              \<lparr>ty = 0, initKind = kExtern, shareKind = kActivation, val = 0, name = Some []\<rparr>,
              \<lparr>ty = 0, initKind = kExtern, shareKind = kActivation, val = 0, name = Some []\<rparr>,
              \<lparr>ty = 1, initKind = kExtern, shareKind = kActivation, val = 0, name = Some []\<rparr>,
              \<lparr>ty = 2, initKind = kExtern, shareKind = kActivation, val = 0, name = Some []\<rparr>,
              \<lparr>ty = 3, initKind = kExtern, shareKind = kActivation, val = 0, name = Some []\<rparr>,
              \<lparr>ty = 4, initKind = kExtern, shareKind = kActivation, val = 0, name = Some []\<rparr>],
      instrs = []\<rparr>"
  by (simp add: exampleModule_def module_eval)

lemma exampleModule_dims:
  "dims exampleModule 0 = Inr [2, 4, 4, 6]" "dims exampleModule 1 = Inr [2, 4, 4, 6]"
  "dims exampleModule 2 = Inr [2, 4, 4, 6]" "dims exampleModule 3 = Inr [2, 4, 4, 6]"
  "dims exampleModule 4 = Inr [2, 3]" "dims exampleModule 5 = Inr [3, 2]"
  "dims exampleModule 6 = Inr [5]"
  by (simp_all add: exampleModule_eq dims_def getType_def derefValue_def derefType_def)

lemma exampleModule_types:
  "getType exampleModule 0 = Inr 0" "getType exampleModule 1 = Inr 0"
  "getType exampleModule 2 = Inr 0" "getType exampleModule 3 = Inr 1"
  "getType exampleModule 4 = Inr 2"
  "getElementType exampleModule 0 = Inr FloatTy" "getElementType exampleModule 4 = Inr FloatTy"
  by (simp_all add: exampleModule_eq getElementType_def getType_def derefValue_def derefType_def)

lemma createRELUOp_returns:
  "getType m input = Inr T \<Longrightarrow> \<exists>I m'. createRELUOp m input = Inr (I, m')"
  by (simp add: createRELUOp_def split: prod.split)

lemma createSigmoidOp_returns:
  "getType m input = Inr T \<Longrightarrow> \<exists>I m'. createSigmoidOp m input = Inr (I, m')"
  by (simp add: createSigmoidOp_def split: prod.split)

lemma createTanhOp_returns:
  "getType m input = Inr T \<Longrightarrow> \<exists>I m'. createTanhOp m input = Inr (I, m')"
  by (simp add: createTanhOp_def split: prod.split)

lemma createRegressionOp_returns:
  "getType m input = Inr T \<Longrightarrow> \<exists>I m'. createRegressionOp m input expected = Inr (I, m')"
  by (simp add: createRegressionOp_def split: prod.split)

subsection \<open>The type table\<close>

lemma findType_prefix: "findType ts t = Some i \<Longrightarrow> prefix ts us \<Longrightarrow> findType us t = Some i"
  by (auto simp: prefix_def findType_append_Some)

lemma uniqueType_found: "findType (types m) (Type ek ds) = Some T \<Longrightarrow> uniqueType m ek ds = (T, m)"
  by (simp add: uniqueType_def)

lemma createStaticVariable_getType:
  assumes "createStaticVariable m ek ds nm ik sk v = (A, m')"
  shows "getType m' A = Inr (fst (uniqueType m ek ds))"
proof -
  obtain T m1 where u: "uniqueType m ek ds = (T, m1)" by fastforce
  from assms u have A: "A = length (vars m1)"
    and m': "m' = setName (snd (pushVar m1 (newStaticVariable T ik sk v))) (length (vars m1)) nm"
    by (auto simp: createStaticVariable_def pushVar_def Let_def)
  show ?thesis
    by (simp add: u A m' getType_def derefValue_def setName_def pushVar_def newStaticVariable_def)
qed

section \<open>Construction and verification\<close>

text \<open>
  Where construction and verification agree. For Convolution, Pooling, FullyConnected,
  Relu, Sigmoid, Tanh, SoftMax, Regression, Transpose, Concat and BatchNormalization:
  whenever the high-level constructor returns an instruction, that instruction passes
  \<open>verify\<close> in the module the constructor returns. The instruction of \<open>createReshapeOp\<close>
  passes \<open>verify\<close> exactly when the new shape has as many elements as the input (the
  precondition of Reshape, which the constructor leaves to verification). The instruction
  of \<open>createArithmeticOp\<close> passes \<open>verify\<close> when both operands have the same \<open>Type\<close>.
\<close>

lemma builder_ops_verify:
  "(createConvOp m input depth kernel' stride pad = Inr (I, m') \<longrightarrow> verify m' I = Inr ())
   \<and> (createPoolOp m input pk kernel' stride pad = Inr (I, m') \<longrightarrow> verify m' I = Inr ())
   \<and> (createFullyConnectedOp m input outDepth = Inr (I, m') \<longrightarrow> verify m' I = Inr ())
   \<and> (createRELUOp m input = Inr (I, m') \<longrightarrow> verify m' I = Inr ())
   \<and> (createSigmoidOp m input = Inr (I, m') \<longrightarrow> verify m' I = Inr ())
   \<and> (createTanhOp m input = Inr (I, m') \<longrightarrow> verify m' I = Inr ())
   \<and> (createSoftMaxOp m input selected = Inr (I, m') \<longrightarrow> verify m' I = Inr ())
   \<and> (createRegressionOp m input expected = Inr (I, m') \<longrightarrow> verify m' I = Inr ())
   \<and> (createTransposeOp m input shuffle = Inr (I, m') \<longrightarrow> verify m' I = Inr ())
   \<and> (createConcatOp m inputs dimension = Inr (I, m') \<longrightarrow> verify m' I = Inr ())
   \<and> (createBatchNormalizationOp m input channelIdx epsilon momentum = Inr (I, m')
        \<longrightarrow> verify m' I = Inr ())
   \<and> (createReshapeOp m input shape = Inr (I, m') \<longrightarrow>
        (\<exists>ds. dims m input = Inr ds
           \<and> (verify m' I = Inr () \<longleftrightarrow> prod_list shape = prod_list ds)))
   \<and> (createArithmeticOp m LHS RHS k = Inr (I, m') \<and> getType m LHS = getType m RHS
        \<longrightarrow> verify m' I = Inr ())"
proof -
  have reshape: "\<exists>ds. dims m input = Inr ds
           \<and> (verify m' I = Inr () \<longleftrightarrow> prod_list shape = prod_list ds)"
    if r: "createReshapeOp m input shape = Inr (I, m')"
  proof -
    from createReshapeOp_Inr_pre[OF r] obtain ek where "getElementType m input = Inr ek" ..
    from getElementType_Inr_dims[OF this] obtain ds where d: "dims m input = Inr ds" ..
    with createReshapeOp_verify_iff[OF r d] show ?thesis by blast
  qed
  show ?thesis
  proof (intro conjI impI)
    show "verify m' I = Inr ()" if "createConvOp m input depth kernel' stride pad = Inr (I, m')"
      using that by (rule createConvOp_verify)
    show "verify m' I = Inr ()" if "createPoolOp m input pk kernel' stride pad = Inr (I, m')"
      using that by (rule createPoolOp_verify)
    show "verify m' I = Inr ()" if "createFullyConnectedOp m input outDepth = Inr (I, m')"
      using that by (rule createFullyConnectedOp_verify)
    show "verify m' I = Inr ()" if "createRELUOp m input = Inr (I, m')"
      using that by (rule createRELUOp_verify)
    show "verify m' I = Inr ()" if "createSigmoidOp m input = Inr (I, m')"
      using that by (rule createSigmoidOp_verify)
    show "verify m' I = Inr ()" if "createTanhOp m input = Inr (I, m')"
      using that by (rule createTanhOp_verify)
    show "verify m' I = Inr ()" if "createSoftMaxOp m input selected = Inr (I, m')"
      using that by (rule createSoftMaxOp_verify)
    show "verify m' I = Inr ()" if "createRegressionOp m input expected = Inr (I, m')"
      using that by (rule createRegressionOp_verify)
    show "verify m' I = Inr ()" if "createTransposeOp m input shuffle = Inr (I, m')"
      using that by (rule createTransposeOp_verify)
    show "verify m' I = Inr ()" if "createConcatOp m inputs dimension = Inr (I, m')"
      using that by (rule createConcatOp_verify)
    show "verify m' I = Inr ()"
      if "createBatchNormalizationOp m input channelIdx epsilon momentum = Inr (I, m')"
      using that by (rule createBatchNormalizationOp_verify)
    show "\<exists>ds. dims m input = Inr ds
           \<and> (verify m' I = Inr () \<longleftrightarrow> prod_list shape = prod_list ds)"
      if "createReshapeOp m input shape = Inr (I, m')"
      using that by (rule reshape)
    show "verify m' I = Inr ()"
      if "createArithmeticOp m LHS RHS k = Inr (I, m') \<and> getType m LHS = getType m RHS"
      using that createArithmeticOp_verify_iff[of m LHS RHS k I m'] by simp
  qed
qed

text \<open>Every operator runs on the example module, and its instruction verifies.\<close>

lemma builder_ops_verify_example:
  "(\<exists>I m'. createConvOp exampleModule 0 16 3 1 1 = Inr (I, m') \<and> verify m' I = Inr ())
   \<and> (\<exists>I m'. createPoolOp exampleModule 0 kMax 2 2 0 = Inr (I, m') \<and> verify m' I = Inr ())
   \<and> (\<exists>I m'. createFullyConnectedOp exampleModule 0 10 = Inr (I, m') \<and> verify m' I = Inr ())
   \<and> (\<exists>I m'. createRELUOp exampleModule 0 = Inr (I, m') \<and> verify m' I = Inr ())
   \<and> (\<exists>I m'. createSigmoidOp exampleModule 0 = Inr (I, m') \<and> verify m' I = Inr ())
   \<and> (\<exists>I m'. createTanhOp exampleModule 0 = Inr (I, m') \<and> verify m' I = Inr ())
   \<and> (\<exists>I m'. createSoftMaxOp exampleModule 0 3 = Inr (I, m') \<and> verify m' I = Inr ())
   \<and> (\<exists>I m'. createRegressionOp exampleModule 0 1 = Inr (I, m') \<and> verify m' I = Inr ())
   \<and> (\<exists>I m'. createTransposeOp exampleModule 0 [0, 3, 1, 2] = Inr (I, m')
         \<and> verify m' I = Inr ())
   \<and> (\<exists>I m'. createConcatOp exampleModule [0, 1, 2] 3 = Inr (I, m') \<and> verify m' I = Inr ())
   \<and> (\<exists>I m'. createBatchNormalizationOp exampleModule 0 3 (1 / 100) (9 / 10) = Inr (I, m')
         \<and> verify m' I = Inr ())
   \<and> (\<exists>I m'. createReshapeOp exampleModule 4 [3, 2] = Inr (I, m') \<and> verify m' I = Inr ())
   \<and> (\<exists>I m'. createArithmeticOp exampleModule 0 1 kAdd = Inr (I, m') \<and> verify m' I = Inr ())"
proof (intro conjI)
  note d0 = exampleModule_dims(1) and g0 = exampleModule_types(1)
  have k3: "(3::nat) \<le> 4" and k2: "(2::nat) \<le> 4" by simp_all
  show "\<exists>I m'. createConvOp exampleModule 0 16 3 1 1 = Inr (I, m') \<and> verify m' I = Inr ()"
  proof -
    from createConvOp_shape[OF d0 k3 k3, of 16 1 1] obtain I m' where
      r: "createConvOp exampleModule 0 16 3 1 1 = Inr (I, m')" by blast
    with builder_ops_verify[where m = exampleModule and input = 0 and depth = 16
        and kernel' = 3 and stride = 1 and pad = 1 and I = I and m' = m']
    show ?thesis by blast
  qed
  show "\<exists>I m'. createPoolOp exampleModule 0 kMax 2 2 0 = Inr (I, m') \<and> verify m' I = Inr ()"
  proof -
    from createPoolOp_shape[OF d0 k2 k2, of kMax 2 0] obtain I m' where
      r: "createPoolOp exampleModule 0 kMax 2 2 0 = Inr (I, m')" by blast
    with builder_ops_verify[where m = exampleModule and input = 0 and pk = kMax
        and kernel' = 2 and stride = 2 and pad = 0 and I = I and m' = m']
    show ?thesis by blast
  qed
  show "\<exists>I m'. createFullyConnectedOp exampleModule 0 10 = Inr (I, m') \<and> verify m' I = Inr ()"
  proof -
    from createFullyConnectedOp_shape[OF d0, of 10] obtain I m' where
      r: "createFullyConnectedOp exampleModule 0 10 = Inr (I, m')" by blast
    with builder_ops_verify[where m = exampleModule and input = 0 and outDepth = 10
        and I = I and m' = m']
    show ?thesis by blast
  qed
  show "\<exists>I m'. createRELUOp exampleModule 0 = Inr (I, m') \<and> verify m' I = Inr ()"
  proof -
    from createRELUOp_returns[OF g0] obtain I m' where
      r: "createRELUOp exampleModule 0 = Inr (I, m')" by blast
    with builder_ops_verify[where m = exampleModule and input = 0 and I = I and m' = m']
    show ?thesis by blast
  qed
  show "\<exists>I m'. createSigmoidOp exampleModule 0 = Inr (I, m') \<and> verify m' I = Inr ()"
  proof -
    from createSigmoidOp_returns[OF g0] obtain I m' where
      r: "createSigmoidOp exampleModule 0 = Inr (I, m')" by blast
    with builder_ops_verify[where m = exampleModule and input = 0 and I = I and m' = m']
    show ?thesis by blast
  qed
  show "\<exists>I m'. createTanhOp exampleModule 0 = Inr (I, m') \<and> verify m' I = Inr ()"
  proof -
    from createTanhOp_returns[OF g0] obtain I m' where
      r: "createTanhOp exampleModule 0 = Inr (I, m')" by blast
    with builder_ops_verify[where m = exampleModule and input = 0 and I = I and m' = m']
    show ?thesis by blast
  qed
  show "\<exists>I m'. createSoftMaxOp exampleModule 0 3 = Inr (I, m') \<and> verify m' I = Inr ()"
  proof -
    from createSoftMaxOp_shape[OF g0, of 3] obtain I m' where
      r: "createSoftMaxOp exampleModule 0 3 = Inr (I, m')" by blast
    with builder_ops_verify[where m = exampleModule and input = 0 and selected = 3
        and I = I and m' = m']
    show ?thesis by blast
  qed
  show "\<exists>I m'. createRegressionOp exampleModule 0 1 = Inr (I, m') \<and> verify m' I = Inr ()"
  proof -
    from createRegressionOp_returns[OF g0, of 1] obtain I m' where
      r: "createRegressionOp exampleModule 0 1 = Inr (I, m')" by blast
    with builder_ops_verify[where m = exampleModule and input = 0 and expected = 1
        and I = I and m' = m']
    show ?thesis by blast
  qed
  show "\<exists>I m'. createTransposeOp exampleModule 0 [0, 3, 1, 2] = Inr (I, m')
         \<and> verify m' I = Inr ()"
  proof -
    have p: "isPermutation [0, 3, 1, 2] (length [2::nat, 4, 4, 6])"
      by (auto simp: isPermutation_def)
    from createTransposeOp_roundtrip[OF d0 p] obtain I m' where
      r: "createTransposeOp exampleModule 0 [0, 3, 1, 2] = Inr (I, m')" by blast
    with builder_ops_verify[where m = exampleModule and input = 0 and shuffle = "[0, 3, 1, 2]"
        and I = I and m' = m']
    show ?thesis by blast
  qed
  show "\<exists>I m'. createConcatOp exampleModule [0, 1, 2] 3 = Inr (I, m') \<and> verify m' I = Inr ()"
  proof -
    have a: "\<forall>v\<in>set [0, 1, 2]. dims exampleModule v = Inr [2, 4, 4, 6]"
      using exampleModule_dims(1-3) by simp
    from createConcatOp_shape[OF _ a, of 3] obtain I m' where
      r: "createConcatOp exampleModule [0, 1, 2] 3 = Inr (I, m')" by auto
    with builder_ops_verify[where m = exampleModule and inputs = "[0, 1, 2]" and dimension = 3
        and I = I and m' = m']
    show ?thesis by blast
  qed
  show "\<exists>I m'. createBatchNormalizationOp exampleModule 0 3 (1 / 100) (9 / 10) = Inr (I, m')
         \<and> verify m' I = Inr ()"
  proof -
    from createBatchNormalizationOp_shape[OF d0, of 3 "1 / 100" "9 / 10"] obtain I m' where
      r: "createBatchNormalizationOp exampleModule 0 3 (1 / 100) (9 / 10) = Inr (I, m')"
      by auto
    with builder_ops_verify[where m = exampleModule and input = 0 and channelIdx = 3
        and epsilon = "1 / 100" and momentum = "9 / 10" and I = I and m' = m']
    show ?thesis by blast
  qed
  show "\<exists>I m'. createReshapeOp exampleModule 4 [3, 2] = Inr (I, m') \<and> verify m' I = Inr ()"
  proof -
    from createReshapeOp_shape[OF exampleModule_types(7), of "[3, 2]"] obtain I m' where
      r: "createReshapeOp exampleModule 4 [3, 2] = Inr (I, m')" by blast
    with builder_ops_verify[where m = exampleModule and input = 4 and shape = "[3, 2]"
        and I = I and m' = m'] exampleModule_dims(5)
    show ?thesis by auto
  qed
  show "\<exists>I m'. createArithmeticOp exampleModule 0 1 kAdd = Inr (I, m') \<and> verify m' I = Inr ()"
  proof -
    from createArithmeticOp_shape[OF d0 exampleModule_dims(2), of kAdd] obtain I m' where
      r: "createArithmeticOp exampleModule 0 1 kAdd = Inr (I, m')" by blast
    with builder_ops_verify[where m = exampleModule and LHS = 0 and RHS = 1 and k = kAdd
        and I = I and m' = m'] exampleModule_types(1,2)
    show ?thesis by auto
  qed
qed

text \<open>
  C1. Construction and verification disagree for Arithmetic. Buffer \<open>0\<close> (float) and
  buffer \<open>3\<close> (index) of the example module have the same shape \<open>(2, 4, 4, 6)\<close>, which is
  all that \<open>createArithmeticOp\<close> asserts: it declares an output of the type of the left
  operand and emits the instruction. \<open>ArithmeticInst::verify\<close> then requires the output to
  have the type of the right operand as well, and fails.
\<close>

theorem createArithmeticOp_verify_disagree:
  "dims exampleModule 0 = Inr [2, 4, 4, 6] \<and> dims exampleModule 3 = Inr [2, 4, 4, 6]
   \<and> getElementType exampleModule 0 = Inr FloatTy
   \<and> getElementType exampleModule 3 = Inr IndexTy
   \<and> \<not> isl (createArithmeticOp exampleModule 0 3 kAdd)
   \<and> fst (projr (createArithmeticOp exampleModule 0 3 kAdd)) = ArithmeticInst [7, 0, 3] kAdd
   \<and> instrs (snd (projr (createArithmeticOp exampleModule 0 3 kAdd)))
       = [ArithmeticInst [7, 0, 3] kAdd]
   \<and> verify (snd (projr (createArithmeticOp exampleModule 0 3 kAdd)))
        (ArithmeticInst [7, 0, 3] kAdd)
       = Inl (AssertionFailure ''Invalid type'')"
  by (simp add: exampleModule_eq createArithmeticOp_def module_eval createArithmeticInst_def
      pushInstr_def ArithmeticInst_verify_def verifySameType01_def checkSameType_def
      getOperand_def elemAt_def assert_def)

section \<open>Convolution and pooling: the shapes of the buffers\<close>

text \<open>
  C2 as stated fails where the fan-in does not fit: the source computes
  \<^verbatim>\<open>kernel * kernel * idim.c\<close> in \<^verbatim>\<open>size_t\<close> and passes it for a \<^verbatim>\<open>float\<close>. For the input
  \<open>(1, 4097, 4097, 1)\<close> and kernel 4097 the filter is initialised with 16785408, not with
  \<open>4097 * 4097 * 1 = 16785409\<close>; for the input \<open>(1, 2 ^ 32, 2 ^ 32, 1)\<close> and kernel \<open>2 ^ 32\<close> it
  is initialised with 0.
\<close>

theorem createConvOp_fanIn_counterexample:
  "dims roundingInputModule 0 = Inr [1, 4097, 4097, 1]
   \<and> \<not> isl (createConvOp roundingInputModule 0 1 4097 1 0)
   \<and> fst (projr (createConvOp roundingInputModule 0 1 4097 1 0))
       = ConvolutionInst [3, 0, 1, 2] 4097 1 0 1
   \<and> derefValue (snd (projr (createConvOp roundingInputModule 0 1 4097 1 0))) 1
       = Inr \<lparr>ty = 0, initKind = kXavier, shareKind = kWeight, val = 16785408,
              name = Some ''filter''\<rparr>
   \<and> real (4097 * 4097 * 1) = 16785409
   \<and> dims wrapInputModule 0 = Inr [1, 4294967296, 4294967296, 1]
   \<and> \<not> isl (createConvOp wrapInputModule 0 1 4294967296 1 0)
   \<and> fst (projr (createConvOp wrapInputModule 0 1 4294967296 1 0))
       = ConvolutionInst [3, 0, 1, 2] 4294967296 1 0 1
   \<and> derefValue (snd (projr (createConvOp wrapInputModule 0 1 4294967296 1 0))) 1
       = Inr \<lparr>ty = 0, initKind = kXavier, shareKind = kWeight, val = 0,
              name = Some ''filter''\<rparr>
   \<and> real (4294967296 * 4294967296 * 1) = 18446744073709551616"
  by (simp add: roundingInputModule_def wrapInputModule_def createConvOp_def
      calculateOutputDims_def module_eval createConvolutionInst_def pushInstr_def
      toFloat_rounds mulSize_wraps assert_def)

text \<open>
  C2, as the code has it. For an input of shape \<open>(N, H, W, C)\<close> with \<open>H \<ge> kernel\<close> and
  \<open>W \<ge> kernel\<close>, \<open>createConvOp\<close> returns a convolution whose output buffer has the shape
  \<open>(N, (H + 2 pad - kernel) div stride + 1, (W + 2 pad - kernel) div stride + 1, depth)\<close>,
  whose filter is a \<open>Weight\<close> buffer of shape \<open>(depth, kernel, kernel, C)\<close> initialised
  \<open>Xavier\<close> with the fan-in \<open>kernel * kernel * C\<close> as computed in \<^verbatim>\<open>size_t\<close> and converted to
  \<^verbatim>\<open>float\<close>, which is \<open>kernel * kernel * C\<close> itself whenever that product is below \<open>2 ^ 24\<close>,
  and whose bias is a \<open>Weight\<close> buffer of shape \<open>(depth)\<close> initialised \<open>Broadcast 0.1\<close>.
\<close>

theorem createConvOp_output_filter_bias:
  assumes "dims m input = Inr [N, H, W, C]" and "kernel' \<le> H" and "kernel' \<le> W"
  shows "\<exists>dest filter' bias m'.
     createConvOp m input depth kernel' stride pad =
       Inr (ConvolutionInst [dest, input, filter', bias] kernel' stride pad depth, m')
     \<and> dims m' dest =
         Inr [N, (H + 2 * pad - kernel') div stride + 1,
              (W + 2 * pad - kernel') div stride + 1, depth]
     \<and> dims m' filter' = Inr [depth, kernel', kernel', C]
     \<and> (\<exists>T v. derefValue m' filter' =
            Inr \<lparr>ty = T, initKind = kXavier, shareKind = kWeight, val = v,
                 name = Some ''filter''\<rparr>
          \<and> v = real (toFloat (mulSize (mulSize kernel' kernel') C))
          \<and> (kernel' * kernel' * C < 2 ^ 24 \<longrightarrow> v = real (kernel' * kernel' * C)))
     \<and> dims m' bias = Inr [depth]
     \<and> (\<exists>T. derefValue m' bias =
            Inr \<lparr>ty = T, initKind = kBroadcast, shareKind = kWeight, val = 0.1,
                 name = Some ''bias''\<rparr>)"
proof -
  from createConvOp_shape[OF assms, of depth stride pad] obtain dest f b m' T where
    r: "createConvOp m input depth kernel' stride pad =
       Inr (ConvolutionInst [dest, input, f, b] kernel' stride pad depth, m')"
    and dd: "dims m' dest =
         Inr [N, (H + 2 * pad - kernel') div stride + 1,
              (W + 2 * pad - kernel') div stride + 1, depth]"
    and df: "dims m' f = Inr [depth, kernel', kernel', C]"
    and vf: "derefValue m' f =
            Inr \<lparr>ty = T, initKind = kXavier, shareKind = kWeight,
                 val = real (toFloat (mulSize (mulSize kernel' kernel') C)),
                 name = Some ''filter''\<rparr>"
    and db: "dims m' b = Inr [depth]"
    and vb: "\<exists>T. derefValue m' b =
            Inr \<lparr>ty = T, initKind = kBroadcast, shareKind = kWeight, val = 0.1,
                 name = Some ''bias''\<rparr>" by blast
  have ex: "kernel' * kernel' * C < 2 ^ 24 \<longrightarrow>
      real (toFloat (mulSize (mulSize kernel' kernel') C)) = real (kernel' * kernel' * C)"
    using fanIn_exact[of kernel' C] by simp
  from r dd df vf db vb ex show ?thesis by blast
qed

text \<open>
  The instance of C2: input \<open>(1, 32, 32, 3)\<close>, kernel 5, stride 1, pad 2, depth 16 gives
  output \<open>(1, 32, 32, 16)\<close>, filter \<open>(16, 5, 5, 3)\<close> with fan-in 75, bias \<open>(16)\<close>.
\<close>

theorem createConvOp_output_filter_bias_witness:
  "dims convInputModule 0 = Inr [1, 32, 32, 3] \<and>
   (\<exists>dest filter' bias m'.
     createConvOp convInputModule 0 16 5 1 2 =
       Inr (ConvolutionInst [dest, 0, filter', bias] 5 1 2 16, m')
     \<and> dims m' dest = Inr [1, 32, 32, 16]
     \<and> dims m' filter' = Inr [16, 5, 5, 3]
     \<and> (\<exists>T. derefValue m' filter' =
            Inr \<lparr>ty = T, initKind = kXavier, shareKind = kWeight, val = 75,
                 name = Some ''filter''\<rparr>)
     \<and> dims m' bias = Inr [16]
     \<and> (\<exists>T. derefValue m' bias =
            Inr \<lparr>ty = T, initKind = kBroadcast, shareKind = kWeight, val = 0.1,
                 name = Some ''bias''\<rparr>))"
proof -
  have d: "dims convInputModule 0 = Inr [1, 32, 32, 3]"
    by (simp add: convInputModule_def module_eval)
  have k: "(5::nat) \<le> 32" by simp
  from createConvOp_output_filter_bias[OF d k k, of 16 1 2] obtain dest f b m' T v where
    r: "createConvOp convInputModule 0 16 5 1 2 =
       Inr (ConvolutionInst [dest, 0, f, b] 5 1 2 16, m')"
    and dd: "dims m' dest = Inr [1, (32 + 2 * 2 - 5) div 1 + 1, (32 + 2 * 2 - 5) div 1 + 1, 16]"
    and df: "dims m' f = Inr [16, 5, 5, 3]"
    and vf: "derefValue m' f =
            Inr \<lparr>ty = T, initKind = kXavier, shareKind = kWeight, val = v,
                 name = Some ''filter''\<rparr>"
    and ex: "(5::nat) * 5 * 3 < 2 ^ 24 \<longrightarrow> v = real (5 * 5 * 3)"
    and db: "dims m' b = Inr [16]"
    and vb: "\<exists>T. derefValue m' b =
            Inr \<lparr>ty = T, initKind = kBroadcast, shareKind = kWeight, val = 0.1,
                 name = Some ''bias''\<rparr>" by blast
  from ex have v: "v = 75" by simp
  from dd have dd': "dims m' dest = Inr [1, 32, 32, 16]" by simp
  from d r dd' df vf[unfolded v] db vb show ?thesis by blast
qed

text \<open>
  C8. For an input of shape \<open>(N, H, W, C)\<close> with \<open>H \<ge> kernel\<close> and \<open>W \<ge> kernel\<close>,
  \<open>createPoolOp\<close> returns a pooling instruction whose output buffer has the shape
  \<open>(N, outH, outW, C)\<close> given by the same formula; its auxiliary buffer has the index
  element kind, the shape \<open>(N, outH, outW, C, 2)\<close> for \<open>Max\<close> and the empty shape for \<open>Avg\<close>.
\<close>

theorem createPoolOp_output_srcXY:
  assumes "dims m input = Inr [N, H, W, C]" and "kernel' \<le> H" and "kernel' \<le> W"
  shows "\<exists>dest srcXY m'.
     createPoolOp m input k kernel' stride pad =
       Inr (PoolInst [dest, input, srcXY] k kernel' stride pad, m')
     \<and> dims m' dest =
         Inr [N, (H + 2 * pad - kernel') div stride + 1,
              (W + 2 * pad - kernel') div stride + 1, C]
     \<and> getElementType m' srcXY = Inr IndexTy
     \<and> dims m' srcXY =
         Inr (if k = kMax
              then [N, (H + 2 * pad - kernel') div stride + 1,
                    (W + 2 * pad - kernel') div stride + 1, C, 2]
              else [])"
  using createPoolOp_shape[OF assms, of k stride pad] by blast

text \<open>
  The instance of C8: \<open>Max\<close> pooling of \<open>(1, 16, 16, 8)\<close> with kernel 2, stride 2, pad 0
  gives output \<open>(1, 8, 8, 8)\<close> and auxiliary shape \<open>(1, 8, 8, 8, 2)\<close>; \<open>Avg\<close> pooling gives
  the empty auxiliary shape.
\<close>

theorem createPoolOp_output_srcXY_witness:
  "dims poolInputModule 0 = Inr [1, 16, 16, 8] \<and>
   (\<exists>dest srcXY m'.
     createPoolOp poolInputModule 0 kMax 2 2 0 = Inr (PoolInst [dest, 0, srcXY] kMax 2 2 0, m')
     \<and> dims m' dest = Inr [1, 8, 8, 8]
     \<and> getElementType m' srcXY = Inr IndexTy
     \<and> dims m' srcXY = Inr [1, 8, 8, 8, 2]) \<and>
   (\<exists>dest srcXY m'.
     createPoolOp poolInputModule 0 kAvg 2 2 0 = Inr (PoolInst [dest, 0, srcXY] kAvg 2 2 0, m')
     \<and> dims m' dest = Inr [1, 8, 8, 8]
     \<and> getElementType m' srcXY = Inr IndexTy
     \<and> dims m' srcXY = Inr [])"
proof -
  have d: "dims poolInputModule 0 = Inr [1, 16, 16, 8]"
    by (simp add: poolInputModule_def module_eval)
  have k: "(2::nat) \<le> 16" by simp
  from createPoolOp_output_srcXY[OF d k k, of kMax 2 0]
    createPoolOp_output_srcXY[OF d k k, of kAvg 2 0] d
  show ?thesis by simp
qed

section \<open>Type interning\<close>

text \<open>
  C3. Let a buffer be declared with element kind \<open>ek1\<close> and shape \<open>ds1\<close>, and later, in
  any module that extends the resulting one, a buffer with \<open>ek2\<close> and \<open>ds2\<close>. Both have
  a \<open>TypeRef\<close>; if the element kinds and the shapes are equal the two \<open>TypeRef\<close>s are
  identical, and if the shapes differ they differ. Interning \<open>(ek1, ds1)\<close> again, before
  or after, returns that same \<open>TypeRef\<close>.
\<close>

theorem uniqueType_canonical:
  assumes c1: "createStaticVariable m ek1 ds1 nm1 ik1 sk1 v1 = (a, m1)"
    and ext: "extends m1 m2"
    and c2: "createStaticVariable m2 ek2 ds2 nm2 ik2 sk2 v2 = (b, m3)"
  shows "\<exists>Ta Tb. getType m3 a = Inr Ta \<and> getType m3 b = Inr Tb
     \<and> derefType m3 Ta = Inr (Type ek1 ds1) \<and> derefType m3 Tb = Inr (Type ek2 ds2)
     \<and> (ek1 = ek2 \<and> ds1 = ds2 \<longrightarrow> Ta = Tb)
     \<and> (ds1 \<noteq> ds2 \<longrightarrow> Ta \<noteq> Tb)
     \<and> fst (uniqueType m ek1 ds1) = Ta
     \<and> fst (uniqueType m2 ek1 ds1) = Ta
     \<and> fst (uniqueType m3 ek1 ds1) = Ta"
proof -
  from createStaticVariable_spec(3)[OF c1] obtain Ta where
    va: "derefValue m1 a = Inr \<lparr>ty = Ta, initKind = ik1, shareKind = sk1, val = v1, name = Some nm1\<rparr>"
    and ta: "derefType m1 Ta = Inr (Type ek1 ds1)"
    and fa: "findType (types m1) (Type ek1 ds1) = Some Ta" by blast
  from createStaticVariable_spec(3)[OF c2] obtain Tb where
    vb: "derefValue m3 b = Inr \<lparr>ty = Tb, initKind = ik2, shareKind = sk2, val = v2, name = Some nm2\<rparr>"
    and tb: "derefType m3 Tb = Inr (Type ek2 ds2)"
    and fb: "findType (types m3) (Type ek2 ds2) = Some Tb" by blast
  have e23: "extends m2 m3" by (rule createStaticVariable_spec(1)[OF c2])
  have e13: "extends m1 m3" by (rule extends_trans[OF ext e23])
  have ga: "getType m3 a = Inr Ta"
    using derefValue_extends[OF va e13] by (simp add: getType_def)
  have gb: "getType m3 b = Inr Tb" using vb by (simp add: getType_def)
  have ta3: "derefType m3 Ta = Inr (Type ek1 ds1)" by (rule derefType_extends[OF ta e13])
  have fa2: "findType (types m2) (Type ek1 ds1) = Some Ta"
    using findType_prefix[OF fa] ext by (simp add: extends_def)
  have fa3: "findType (types m3) (Type ek1 ds1) = Some Ta"
    using findType_prefix[OF fa] e13 by (simp add: extends_def)
  have same: "Ta = Tb" if "ek1 = ek2 \<and> ds1 = ds2" using that fa3 fb by simp
  have diff: "Ta \<noteq> Tb" if "ds1 \<noteq> ds2" using that ta3 tb by auto
  have u0: "fst (uniqueType m ek1 ds1) = Ta"
    using createStaticVariable_getType[OF c1] va by (simp add: getType_def)
  have u2: "fst (uniqueType m2 ek1 ds1) = Ta" by (simp add: uniqueType_found[OF fa2])
  have u3: "fst (uniqueType m3 ek1 ds1) = Ta" by (simp add: uniqueType_found[OF fa3])
  from ga gb ta3 tb same diff u0 u2 u3 show ?thesis by blast
qed

text \<open>
  Buffers \<open>0\<close> and \<open>2\<close> of shape \<open>(2, 3)\<close> share their type; buffer \<open>1\<close> of shape \<open>(3, 2)\<close>
  has another.
\<close>

theorem uniqueType_canonical_witness:
  "getType internModule3 0 = Inr 0 \<and> getType internModule3 2 = Inr 0
   \<and> getType internModule2 0 \<noteq> getType internModule2 1"
proof -
  have c1: "createStaticVariable emptyModule FloatTy [2, 3] [] kExtern kActivation 0
              = (0, internModule1)"
    by (simp add: internModule1_def module_eval)
  have c2: "createStaticVariable internModule1 FloatTy [3, 2] [] kExtern kActivation 0
              = (1, internModule2)"
    by (simp add: internModule2_def internModule1_def module_eval)
  have c3: "createStaticVariable internModule2 FloatTy [2, 3] [] kExtern kActivation 0
              = (2, internModule3)"
    by (simp add: internModule3_def internModule2_def internModule1_def module_eval)
  have e12: "extends internModule1 internModule2"
    by (rule createStaticVariable_spec(1)[OF c2])
  have u: "fst (uniqueType emptyModule FloatTy [2, 3]) = 0"
    by (simp add: module_eval)
  from uniqueType_canonical[OF c1 e12 c3] uniqueType_canonical[OF c1 extends_refl c2] u
  show ?thesis by auto
qed

section \<open>Reshape\<close>

text \<open>
  C4. A Reshape instruction over declared buffers passes \<open>verify\<close> if and only if the
  product of the extents of its output equals that of its input; with different products
  it fails with the assertion of \<open>ReshapeInst::verify\<close>. \<open>createReshapeOp\<close> itself does
  not check: for every new shape it returns the instruction and appends it to the module,
  and that instruction verifies exactly when the products agree.
\<close>

theorem ReshapeInst_verify_iff_same_size:
  assumes "dims m dest = Inr s1" and "dims m src = Inr s2"
  shows "(verify m (ReshapeInst [dest, src] shape) = Inr () \<longleftrightarrow> prod_list s1 = prod_list s2)
     \<and> (prod_list s1 \<noteq> prod_list s2 \<longrightarrow>
          verify m (ReshapeInst [dest, src] shape)
            = Inl (AssertionFailure ''Reshape into a different size''))
     \<and> (\<exists>res m'.
          createReshapeOp m src newShape = Inr (ReshapeInst [res, src] newShape, m')
          \<and> instrs m' = instrs m @ [ReshapeInst [res, src] newShape]
          \<and> dims m' res = Inr newShape \<and> dims m' src = Inr s2
          \<and> (verify m' (ReshapeInst [res, src] newShape) = Inr ()
                \<longleftrightarrow> prod_list newShape = prod_list s2))"
proof (intro conjI impI)
  note v = ReshapeInst_verify_eq[OF assms, of shape]
  show "verify m (ReshapeInst [dest, src] shape) = Inr () \<longleftrightarrow> prod_list s1 = prod_list s2"
    unfolding v by simp
  show "verify m (ReshapeInst [dest, src] shape)
          = Inl (AssertionFailure ''Reshape into a different size'')"
    if "prod_list s1 \<noteq> prod_list s2"
    unfolding v using that by (simp add: assert_def)
  from dims_Inr_getElementType[OF assms(2)] obtain ek where "getElementType m src = Inr ek" ..
  from createReshapeOp_shape[OF this, of newShape] obtain res m' where
    r: "createReshapeOp m src newShape = Inr (ReshapeInst [res, src] newShape, m')"
    and e: "extends m m'" and i: "instrs m' = instrs m @ [ReshapeInst [res, src] newShape]"
    and d: "dims m' res = Inr newShape" by blast
  have ds: "dims m' src = Inr s2" by (rule dims_extends[OF assms(2) e])
  have "verify m' (ReshapeInst [res, src] newShape) = Inr ()
          \<longleftrightarrow> prod_list newShape = prod_list s2"
    unfolding ReshapeInst_verify_eq[OF d ds] by simp
  with r i d ds
  show "\<exists>res m'.
          createReshapeOp m src newShape = Inr (ReshapeInst [res, src] newShape, m')
          \<and> instrs m' = instrs m @ [ReshapeInst [res, src] newShape]
          \<and> dims m' res = Inr newShape \<and> dims m' src = Inr s2
          \<and> (verify m' (ReshapeInst [res, src] newShape) = Inr ()
                \<longleftrightarrow> prod_list newShape = prod_list s2)" by blast
qed

text \<open>
  \<open>(2, 3)\<close> reshaped to \<open>(3, 2)\<close> verifies, to \<open>(5)\<close> it does not, and \<open>createReshapeOp\<close>
  builds the latter all the same.
\<close>

theorem ReshapeInst_verify_iff_same_size_witness:
  "verify exampleModule (ReshapeInst [5, 4] [3, 2]) = Inr ()
   \<and> verify exampleModule (ReshapeInst [6, 4] [5])
       = Inl (AssertionFailure ''Reshape into a different size'')
   \<and> (\<exists>res m'.
        createReshapeOp exampleModule 4 [5] = Inr (ReshapeInst [res, 4] [5], m')
        \<and> dims m' res = Inr [5] \<and> dims m' 4 = Inr [2, 3]
        \<and> verify m' (ReshapeInst [res, 4] [5]) \<noteq> Inr ())"
proof -
  note d4 = exampleModule_dims(5) and d5 = exampleModule_dims(6) and d6 = exampleModule_dims(7)
  from ReshapeInst_verify_iff_same_size[OF d5 d4, of "[3, 2]" "[5]"]
    ReshapeInst_verify_iff_same_size[OF d6 d4, of "[5]" "[5]"]
  show ?thesis by (simp del: verify.simps) blast
qed

section \<open>Transpose\<close>

text \<open>
  C5. For an input of shape \<open>S\<close> and a permutation \<open>p\<close> of its axes, \<open>createTransposeOp\<close>
  returns an instruction whose output shape \<open>T\<close> has the rank of \<open>S\<close> and satisfies
  \<open>T ! i = S ! (p ! i)\<close> for every axis \<open>i\<close>. Transposing that output with the inverse
  permutation gives a buffer of shape \<open>S\<close> again. (The inverse permutation is a
  permutation, and inverse to \<open>p\<close> on both sides.)
\<close>

theorem createTransposeOp_permutes_shape:
  assumes "dims m input = Inr S" and "isPermutation p (length S)"
  shows "isPermutation (inversePermutation p) (length S)
      \<and> (\<forall>i<length S. p ! (inversePermutation p ! i) = i
                       \<and> inversePermutation p ! (p ! i) = i)
      \<and> (\<exists>dest m'.
           createTransposeOp m input p = Inr (TransposeInst [dest, input] p, m')
           \<and> (\<exists>T. dims m' dest = Inr T \<and> T = map (\<lambda>i. S ! (p ! i)) [0..<length S]
                   \<and> length T = length S \<and> (\<forall>i<length S. T ! i = S ! (p ! i)))
           \<and> (\<exists>dest2 m''.
                 createTransposeOp m' dest (inversePermutation p) =
                   Inr (TransposeInst [dest2, dest] (inversePermutation p), m'')
                 \<and> dims m'' dest2 = Inr S))"
proof (intro conjI)
  show "isPermutation (inversePermutation p) (length S)"
    by (rule inversePermutation_isPermutation(1)[OF assms(2)])
  show "\<forall>i<length S. p ! (inversePermutation p ! i) = i
                       \<and> inversePermutation p ! (p ! i) = i"
    using inversePermutation_props(2)[OF assms(2)]
      inversePermutation_isPermutation(2)[OF assms(2)] by simp
  show "\<exists>dest m'.
           createTransposeOp m input p = Inr (TransposeInst [dest, input] p, m')
           \<and> (\<exists>T. dims m' dest = Inr T \<and> T = map (\<lambda>i. S ! (p ! i)) [0..<length S]
                   \<and> length T = length S \<and> (\<forall>i<length S. T ! i = S ! (p ! i)))
           \<and> (\<exists>dest2 m''.
                 createTransposeOp m' dest (inversePermutation p) =
                   Inr (TransposeInst [dest2, dest] (inversePermutation p), m'')
                 \<and> dims m'' dest2 = Inr S)"
    by (rule createTransposeOp_roundtrip[OF assms])
qed

text \<open>
  \<open>(2, 4, 4, 6)\<close> transposed with \<open>[0, 3, 1, 2]\<close> is \<open>(2, 6, 4, 4)\<close>, and transposed back
  with \<open>[0, 2, 3, 1]\<close> it is \<open>(2, 4, 4, 6)\<close>.
\<close>

theorem createTransposeOp_permutes_shape_witness:
  "isPermutation [2, 0, 1] 3 \<and> inversePermutation [2, 0, 1] = [1, 2, 0]
   \<and> (\<exists>dest m'.
        createTransposeOp exampleModule 0 [0, 3, 1, 2] = Inr (TransposeInst [dest, 0] [0, 3, 1, 2], m')
        \<and> dims m' dest = Inr [2, 6, 4, 4]
        \<and> (\<exists>dest2 m''.
              createTransposeOp m' dest [0, 2, 3, 1] = Inr (TransposeInst [dest2, dest] [0, 2, 3, 1], m'')
              \<and> dims m'' dest2 = Inr [2, 4, 4, 6]))"
proof -
  have p: "isPermutation [0, 3, 1, 2] (length [2::nat, 4, 4, 6])"
    by (auto simp: isPermutation_def)
  have i: "inversePermutation [0, 3, 1, 2] = [0, 2, 3, 1]"
    by (simp add: inversePermutation_def)
  have q: "isPermutation [2, 0, 1] 3" by (auto simp: isPermutation_def)
  have j: "inversePermutation [2, 0, 1] = [1, 2, 0]" by (simp add: inversePermutation_def)
  from createTransposeOp_permutes_shape[OF exampleModule_dims(1) p, unfolded i] q j
  show ?thesis by simp blast
qed

section \<open>The length of a Transpose permutation\<close>

text \<open>
  C9 as stated fails: the rank-2 buffer \<open>(2, 3)\<close> is transposed with the permutation
  \<open>[1, 0, 7]\<close> of length 3; the instruction is appended to the module and passes
  \<open>verify\<close>.
\<close>

theorem TransposeInst_long_shuffle_counterexample:
  "dims exampleModule 4 = Inr [2, 3] \<and> length [1::nat, 0, 7] = 3
   \<and> \<not> isl (createTransposeOp exampleModule 4 [1, 0, 7])
   \<and> fst (projr (createTransposeOp exampleModule 4 [1, 0, 7])) = TransposeInst [7, 4] [1, 0, 7]
   \<and> instrs (snd (projr (createTransposeOp exampleModule 4 [1, 0, 7])))
       = [TransposeInst [7, 4] [1, 0, 7]]
   \<and> dims (snd (projr (createTransposeOp exampleModule 4 [1, 0, 7]))) 7 = Inr [3, 2]
   \<and> verify (snd (projr (createTransposeOp exampleModule 4 [1, 0, 7])))
        (TransposeInst [7, 4] [1, 0, 7]) = Inr ()"
  by (simp add: exampleModule_eq createTransposeOp_def module_eval createTransposeInst_def
      pushInstr_def TransposeInst_verify_def getOperand_def elemAt_def assert_def)

text \<open>
  C9, as the code has it. Neither \<open>createTransposeOp\<close> nor \<open>TransposeInst::verify\<close>
  compares the length of the permutation with the rank of the input: both read its first
  \<open>rank\<close> entries only. A permutation shorter than the rank makes both read it out of
  range (an abort); a permutation at least as long as the rank whose first \<open>rank\<close> entries
  are axes of the input is accepted, the instruction is appended to the module with the
  output shape given by these entries, and it passes \<open>verify\<close>.
\<close>

theorem createTransposeOp_shuffle_length:
  assumes "dims m input = Inr ds"
  shows "(length shuffle < length ds \<longrightarrow>
            createTransposeOp m input shuffle = Inl IndexOutOfRange
            \<and> verify m (TransposeInst [dest, input] shuffle) = Inl IndexOutOfRange)
     \<and> (length ds \<le> length shuffle \<and> (\<forall>i<length ds. shuffle ! i < length ds) \<longrightarrow>
           (\<exists>res m'.
              createTransposeOp m input shuffle = Inr (TransposeInst [res, input] shuffle, m')
              \<and> instrs m' = instrs m @ [TransposeInst [res, input] shuffle]
              \<and> dims m' res = Inr (map (\<lambda>i. ds ! (shuffle ! i)) [0..<length ds])
              \<and> verify m' (TransposeInst [res, input] shuffle) = Inr ()))"
proof (intro conjI impI)
  assume short: "length shuffle < length ds"
  show "createTransposeOp m input shuffle = Inl IndexOutOfRange"
    by (rule createTransposeOp_short[OF assms short])
  show "verify m (TransposeInst [dest, input] shuffle) = Inl IndexOutOfRange"
    by (rule TransposeInst_verify_short[OF assms short])
next
  assume long: "length ds \<le> length shuffle \<and> (\<forall>i<length ds. shuffle ! i < length ds)"
  then have ok: "\<forall>i<length ds. i < length shuffle \<and> shuffle ! i < length ds" by auto
  from createTransposeOp_shape[OF assms ok] obtain res m' where
    r: "createTransposeOp m input shuffle = Inr (TransposeInst [res, input] shuffle, m')"
    and i: "instrs m' = instrs m @ [TransposeInst [res, input] shuffle]"
    and d: "dims m' res = Inr (map (\<lambda>i. ds ! (shuffle ! i)) [0..<length ds])" by blast
  from createTransposeOp_verify[OF r] r i d
  show "\<exists>res m'.
              createTransposeOp m input shuffle = Inr (TransposeInst [res, input] shuffle, m')
              \<and> instrs m' = instrs m @ [TransposeInst [res, input] shuffle]
              \<and> dims m' res = Inr (map (\<lambda>i. ds ! (shuffle ! i)) [0..<length ds])
              \<and> verify m' (TransposeInst [res, input] shuffle) = Inr ()" by blast
qed

text \<open>On the buffer \<open>(2, 3)\<close>: the permutation \<open>[1]\<close> aborts, \<open>[1, 0, 7]\<close> is accepted.\<close>

theorem createTransposeOp_shuffle_length_witness:
  "dims exampleModule 4 = Inr [2, 3]
   \<and> createTransposeOp exampleModule 4 [1] = Inl IndexOutOfRange
   \<and> verify exampleModule (TransposeInst [5, 4] [1]) = Inl IndexOutOfRange
   \<and> (\<exists>res m'.
        createTransposeOp exampleModule 4 [1, 0, 7] = Inr (TransposeInst [res, 4] [1, 0, 7], m')
        \<and> dims m' res = Inr [3, 2]
        \<and> verify m' (TransposeInst [res, 4] [1, 0, 7]) = Inr ())"
proof -
  note d4 = exampleModule_dims(5)
  have ok: "\<forall>i<length [2::nat, 3]. [1::nat, 0, 7] ! i < length [2::nat, 3]"
    by (simp add: less_Suc_eq)
  from createTransposeOp_shuffle_length[OF d4, of "[1]" 5]
    createTransposeOp_shuffle_length[OF d4, of "[1, 0, 7]" 5] ok d4
  show ?thesis by (simp del: verify.simps) blast
qed

section \<open>Concat\<close>

text \<open>
  C6 as stated fails where the stacked extent does not fit: the source computes it with
  \<^verbatim>\<open>*=\<close> in \<^verbatim>\<open>size_t\<close>. Two inputs of shape \<open>(2 ^ 63)\<close> stacked on axis 0 give an output of
  shape \<open>(0)\<close>, not \<open>(2 ^ 64)\<close>, and the instruction verifies.
\<close>

theorem createConcatOp_overflow_counterexample:
  "dims overflowModule 0 = Inr [9223372036854775808]
   \<and> dims overflowModule 1 = Inr [9223372036854775808]
   \<and> \<not> isl (createConcatOp overflowModule [0, 1] 0)
   \<and> fst (projr (createConcatOp overflowModule [0, 1] 0)) = ConcatInst [2, 0, 1] 0
   \<and> dims (snd (projr (createConcatOp overflowModule [0, 1] 0))) 2 = Inr [0]
   \<and> (9223372036854775808::nat) * 2 = 18446744073709551616
   \<and> verify (snd (projr (createConcatOp overflowModule [0, 1] 0))) (ConcatInst [2, 0, 1] 0)
       = Inr ()"
  by (simp add: overflowModule_def createConcatOp_def module_eval createConcatInst_def
      pushInstr_def elemAt_def stackAlong_def mulSize_def ConcatInst_verify_def
      getNumOperands_def getOperand_def assert_def)

text \<open>
  C6, as the code has it. For a non-empty list of \<open>N\<close> inputs that all have the shape \<open>S\<close>
  and an axis \<open>k\<close> of \<open>S\<close>, \<open>createConcatOp\<close> returns an instruction whose output has the
  shape \<open>S\<close> with the extent at \<open>k\<close> replaced by the \<^verbatim>\<open>size_t\<close> product of \<open>S ! k\<close> and \<open>N\<close>:
  the product modulo \<open>2 ^ 64\<close>, hence \<open>S ! k * N\<close> itself whenever that is below \<open>2 ^ 64\<close>.
  \<open>ConcatInst::verify\<close> recomputes the same shape: the instruction verifies, and with any
  other declared output in its place it verifies if and only if that output has exactly
  the stacked shape.
\<close>

theorem createConcatOp_stacks:
  assumes "inputs \<noteq> []" and "\<forall>v\<in>set inputs. dims m v = Inr S" and "k < length S"
  shows "\<exists>dest m'.
     createConcatOp m inputs k = Inr (ConcatInst (dest # inputs) k, m')
     \<and> dims m' dest = Inr (S[k := mulSize (S ! k) (length inputs)])
     \<and> (S ! k < 2 ^ 64 \<and> length inputs < 2 ^ 64 \<longrightarrow>
          dims m' dest = Inr (S[k := (S ! k * length inputs) mod 2 ^ 64]))
     \<and> (S ! k * length inputs < 2 ^ 64 \<longrightarrow>
          dims m' dest = Inr (S[k := S ! k * length inputs]))
     \<and> verify m' (ConcatInst (dest # inputs) k) = Inr ()
     \<and> (\<forall>out D. dims m' out = Inr D \<longrightarrow>
           (verify m' (ConcatInst (out # inputs) k) = Inr ()
              \<longleftrightarrow> D = S[k := mulSize (S ! k) (length inputs)]))"
proof -
  from createConcatOp_shape[OF assms] obtain dest m' where
    r: "createConcatOp m inputs k = Inr (ConcatInst (dest # inputs) k, m')"
    and e: "extends m m'"
    and d: "dims m' dest = Inr (S[k := mulSize (S ! k) (length inputs)])" by blast
  have all': "\<forall>v\<in>set inputs. dims m' v = Inr S" using assms(2) dims_extends[OF _ e] by blast
  have v: "verify m' (ConcatInst (dest # inputs) k) = Inr ()"
    by (rule createConcatOp_verify[OF r])
  have w: "verify m' (ConcatInst (out # inputs) k) = Inr ()
             \<longleftrightarrow> D = S[k := mulSize (S ! k) (length inputs)]"
    if "dims m' out = Inr D" for out D
    unfolding ConcatInst_verify_eq[OF assms(1) all' assms(3) that] by simp
  have md: "dims m' dest = Inr (S[k := (S ! k * length inputs) mod 2 ^ 64])"
    if "S ! k < 2 ^ 64 \<and> length inputs < 2 ^ 64"
    using d that by (simp add: mulSize_mod)
  have ex: "dims m' dest = Inr (S[k := S ! k * length inputs])"
    if "S ! k * length inputs < 2 ^ 64"
    using d that by (simp add: mulSize_exact)
  from r d md ex v w show ?thesis by blast
qed

text \<open>Three inputs of shape \<open>(2, 4, 4, 6)\<close> on axis 3 give \<open>(2, 4, 4, 18)\<close>.\<close>

theorem createConcatOp_stacks_witness:
  "\<exists>dest m'.
     createConcatOp exampleModule [0, 1, 2] 3 = Inr (ConcatInst [dest, 0, 1, 2] 3, m')
     \<and> dims m' dest = Inr [2, 4, 4, 18]
     \<and> verify m' (ConcatInst [dest, 0, 1, 2] 3) = Inr ()"
proof -
  have a: "\<forall>v\<in>set [0, 1, 2]. dims exampleModule v = Inr [2, 4, 4, 6]"
    using exampleModule_dims(1-3) by simp
  have ne: "[0::nat, 1, 2] \<noteq> []" and k: "3 < length [2::nat, 4, 4, 6]" by simp_all
  from createConcatOp_stacks[OF ne a k] obtain dest m' where
    r: "createConcatOp exampleModule [0, 1, 2] 3 = Inr (ConcatInst ([dest] @ [0, 1, 2]) 3, m')"
    and ex: "[2::nat, 4, 4, 6] ! 3 * length [0::nat, 1, 2] < 2 ^ 64 \<longrightarrow>
          dims m' dest = Inr ([2, 4, 4, 6][3 := [2, 4, 4, 6] ! 3 * length [0::nat, 1, 2]])"
    and v: "verify m' (ConcatInst ([dest] @ [0, 1, 2]) 3) = Inr ()" by auto
  from ex have "dims m' dest = Inr [2, 4, 4, 18]" by simp
  with r v show ?thesis by (simp del: verify.simps)
qed

text \<open>
  C7 as stated fails: \<open>createConcatInst\<close> accepts a Concat with a single source operand,
  appends it to the module, and the instruction passes \<open>verify\<close>.
\<close>

theorem ConcatInst_single_source_counterexample:
  "fst (createConcatInst exampleModule 1 [0] 3) = ConcatInst [1, 0] 3
   \<and> getNumOperands (ConcatInst [1, 0] 3) - 1 = 1
   \<and> instrs (snd (createConcatInst exampleModule 1 [0] 3)) = [ConcatInst [1, 0] 3]
   \<and> verify (snd (createConcatInst exampleModule 1 [0] 3)) (ConcatInst [1, 0] 3) = Inr ()"
  by (simp add: exampleModule_eq createConcatInst_def pushInstr_def getNumOperands_def
      ConcatInst_verify_def getOperand_def elemAt_def stackAlong_def assert_def
      dims_def getType_def derefValue_def derefType_def)

text \<open>
  C7, as the code has it. \<open>createConcatInst\<close> checks nothing: it always builds the
  instruction from the output and the sources and appends it. \<open>ConcatInst::verify\<close>
  asserts \<open>getNumOperands() > 1\<close>, counting the output: a Concat without any source operand
  fails verification, and a Concat with one source operand of shape \<open>S\<close>, an axis of \<open>S\<close>
  and an output of shape \<open>S\<close> passes it.
\<close>

theorem ConcatInst_arity:
  "createConcatInst m dest src d =
     (ConcatInst (dest # src) d, m\<lparr>instrs := instrs m @ [ConcatInst (dest # src) d]\<rparr>)
   \<and> verify (snd (createConcatInst m dest [] d)) (fst (createConcatInst m dest [] d))
       = Inl (AssertionFailure ''Invalid number of operands'')
   \<and> (dims m s = Inr S \<and> d < length S \<and> dims m dest = Inr S
        \<longrightarrow> verify (snd (createConcatInst m dest [s] d)) (fst (createConcatInst m dest [s] d))
              = Inr ())"
proof (intro conjI impI)
  show "createConcatInst m dest src d =
     (ConcatInst (dest # src) d, m\<lparr>instrs := instrs m @ [ConcatInst (dest # src) d]\<rparr>)"
    by (simp add: createConcatInst_def pushInstr_def)
  show "verify (snd (createConcatInst m dest [] d)) (fst (createConcatInst m dest [] d))
       = Inl (AssertionFailure ''Invalid number of operands'')"
    by (simp add: createConcatInst_def pushInstr_def ConcatInst_verify_no_source(1)
        del: verify.simps)
  assume a: "dims m s = Inr S \<and> d < length S \<and> dims m dest = Inr S"
  let ?m = "m\<lparr>instrs := instrs m @ [ConcatInst [dest, s] d]\<rparr>"
  from a have all: "\<forall>v\<in>set [s]. dims ?m v = Inr S" by simp
  from a have k: "d < length S" and o: "dims ?m dest = Inr S" by simp_all
  have ne: "[s] \<noteq> []" by simp
  show "verify (snd (createConcatInst m dest [s] d)) (fst (createConcatInst m dest [s] d))
          = Inr ()"
    by (simp add: createConcatInst_def pushInstr_def ConcatInst_verify_eq[OF ne all k o]
        del: verify.simps)
qed

text \<open>On the example module: one source verifies, no source does not.\<close>

theorem ConcatInst_arity_witness:
  "dims exampleModule 0 = Inr [2, 4, 4, 6] \<and> dims exampleModule 1 = Inr [2, 4, 4, 6]
   \<and> verify (snd (createConcatInst exampleModule 1 [0] 3))
        (fst (createConcatInst exampleModule 1 [0] 3)) = Inr ()
   \<and> verify (snd (createConcatInst exampleModule 1 [] 3))
        (fst (createConcatInst exampleModule 1 [] 3))
       = Inl (AssertionFailure ''Invalid number of operands'')"
proof -
  note d0 = exampleModule_dims(1) and d1 = exampleModule_dims(2)
  have k: "(3::nat) < length [2::nat, 4, 4, 6]" by simp
  from ConcatInst_arity[where m = exampleModule and dest = 1 and src = "[0]" and d = 3
      and s = 0 and S = "[2, 4, 4, 6]"]
  have none: "verify (snd (createConcatInst exampleModule 1 [] 3))
        (fst (createConcatInst exampleModule 1 [] 3))
       = Inl (AssertionFailure ''Invalid number of operands'')"
    and one: "dims exampleModule 0 = Inr [2, 4, 4, 6] \<and> 3 < length [2::nat, 4, 4, 6]
          \<and> dims exampleModule 1 = Inr [2, 4, 4, 6]
        \<longrightarrow> verify (snd (createConcatInst exampleModule 1 [0] 3))
              (fst (createConcatInst exampleModule 1 [0] 3)) = Inr ()"
    by blast+
  from one d0 d1 k have "verify (snd (createConcatInst exampleModule 1 [0] 3))
        (fst (createConcatInst exampleModule 1 [0] 3)) = Inr ()" by blast
  with none d0 d1 show ?thesis by blast
qed

section \<open>The name of a buffer declaration\<close>

text \<open>
  C10. The \<open>TypeRef\<close> overload of \<open>createStaticVariable\<close> ignores its name argument:
  its result does not depend on the name, and the declaration it creates has no name
  set, whereas the overload taking an element kind and a shape sets the name. In
  particular the \<open>expected\<close> buffer of the SoftMax operator (operand 2) is left unnamed.
\<close>

theorem createStaticVariable_TypeRef_overload_unnamed:
  "createStaticVariableT m T nm ik sk v = createStaticVariableT m T nm' ik sk v
   \<and> getName (snd (createStaticVariableT m T nm ik sk v))
        (fst (createStaticVariableT m T nm ik sk v)) = Inr None
   \<and> getName (snd (createStaticVariable m ek ds nm ik sk v))
        (fst (createStaticVariable m ek ds nm ik sk v)) = Inr (Some nm)
   \<and> (getType m input = Inr T \<longrightarrow>
        (\<exists>res E m'.
           createSoftMaxOp m input selected = Inr (SoftMaxInst [res, input, E, selected], m')
           \<and> getName m' E = Inr None))"
proof (intro conjI impI)
  show "createStaticVariableT m T nm ik sk v = createStaticVariableT m T nm' ik sk v"
    by (rule createStaticVariableT_name_unused)
  show "getName (snd (createStaticVariableT m T nm ik sk v))
        (fst (createStaticVariableT m T nm ik sk v)) = Inr None"
    by (rule getName_createStaticVariableT) simp
  show "getName (snd (createStaticVariable m ek ds nm ik sk v))
        (fst (createStaticVariable m ek ds nm ik sk v)) = Inr (Some nm)"
    by (rule getName_createStaticVariable) simp
  assume "getType m input = Inr T"
  from createSoftMaxOp_shape[OF this, of selected]
  show "\<exists>res E m'.
           createSoftMaxOp m input selected = Inr (SoftMaxInst [res, input, E, selected], m')
           \<and> getName m' E = Inr None" by blast
qed

text \<open>SoftMax on a float buffer with an index buffer as \<open>selected\<close>.\<close>

theorem createStaticVariable_TypeRef_overload_unnamed_witness:
  "getType softMaxInputModule 0 = Inr 0 \<and>
   (\<exists>res E m'.
      createSoftMaxOp softMaxInputModule 0 1 = Inr (SoftMaxInst [res, 0, E, 1], m')
      \<and> getName m' E = Inr None)"
proof -
  have g: "getType softMaxInputModule 0 = Inr 0"
    by (simp add: softMaxInputModule_def module_eval)
  from createStaticVariable_TypeRef_overload_unnamed
         [of softMaxInputModule 0 "''expected''" kExtern kActivation 0 "[]" FloatTy "[]" 0 1] g
  show ?thesis by blast
qed

end
